theory Spec2Isabelle
  imports
    Main
    "HOL-Library.Multiset"
    "HOL-Library.List_Lexorder"
    "HOL-Library.Word"
begin

section \<open>My-Study-Schedule: the planner's data model and managers (src/app.js)\<close>

text \<open>
  The program is one JavaScript file. Its managers mutate a shared singleton
  (\<open>AppState\<close>) and the browser's \<open>localStorage\<close>; the embedding threads both through
  every operation as one record, \<open>world\<close>. An operation that can throw returns a sum,
  with the exception on the left.
\<close>

subsection \<open>JavaScript values\<close>

text \<open>
  The fields of the study-topic and practice-activity inputs are read with \<open>||\<close>,
  \<open>===\<close>, \<open>.trim()\<close> and \<open>parseInt\<close>, whose results depend on the dynamic type of the
  value, so these fields are values of \<open>jsval\<close>. The numbers among them are the
  integers from 0 to \<open>2 ^ 32 - 1\<close> (a duration is a count of minutes); negative and
  fractional numbers, \<open>NaN\<close> and the infinities are not values of the type. A string
  is a list of code units below 256.
\<close>

datatype jsval = JUndefined | JNull | JBool bool | JNum "32 word" | JStr string

datatype js_error = TypeError

text \<open>ToBoolean.\<close>

fun truthy :: "jsval \<Rightarrow> bool" where
  "truthy JUndefined = False"
| "truthy JNull = False"
| "truthy (JBool b) = b"
| "truthy (JNum n) = (n \<noteq> 0)"
| "truthy (JStr s) = (s \<noteq> [])"

text \<open>The operator \<open>a || b\<close> on values.\<close>

definition js_or :: "jsval \<Rightarrow> jsval \<Rightarrow> jsval" where
  "js_or a b = (if truthy a then a else b)"

subsection \<open>Dates and keys\<close>

text \<open>
  A \<open>Date\<close> is used only through its local calendar day: \<open>getDay\<close>, \<open>getDate\<close> and
  \<open>setDate\<close>. The model keeps the day as its number counted from 1 January 1970 (a
  Thursday), in a time zone whose calendar has every day (Samoa had no 30 December
  2011, and \<open>setDate\<close> steps over such a day). \<open>formatDate\<close> prints the local year,
  month and day zero-padded, which names the calendar day one-to-one; the model keeps
  the day itself as the key.
\<close>

type_synonym jsdate = int

datatype dateKey = DateKey int

definition formatDate :: "jsdate \<Rightarrow> dateKey" where
  "formatDate date = DateKey date"

text \<open>\<open>addDays\<close>: \<open>result.setDate(result.getDate() + days)\<close> on a copy.\<close>

definition addDays :: "jsdate \<Rightarrow> int \<Rightarrow> jsdate" where
  "addDays date days = date + days"

text \<open>\<open>Date.prototype.getDay\<close>: 0 is Sunday, 6 is Saturday.\<close>

definition getDay :: "jsdate \<Rightarrow> int" where
  "getDay date = (date + 4) mod 7"

definition getStartOfWeek :: "jsdate \<Rightarrow> jsdate" where
  "getStartOfWeek date =
     (let day = getDay date;
          diff = (if day = 0 then - 6 else 1 - day)
      in date + diff)"

subsection \<open>The stored entities\<close>

text \<open>
  A start time is the value of a time input: digits and colons. It is the one field
  that \<open>localeCompare\<close> reads, and its characters are the ones whose collation is
  modelled, so its text is a list of those characters.
\<close>

datatype tchar = D0 | D1 | D2 | D3 | D4 | D5 | D6 | D7 | D8 | D9 | Colon

type_synonym time_text = "tchar list"

record taskData =
  startTime :: time_text
  endTime :: string
  name :: string
  category :: string

record task = taskData +
  task_id :: string
  completed :: bool

record topicData =
  topic :: jsval
  duration :: jsval
  difficulty :: jsval
  resource :: jsval
  notes_t :: jsval

record dsTopic = topicData +
  topic_id :: string
  date :: dateKey

record activityData =
  a_type :: jsval
  a_duration :: jsval
  a_completed :: jsval
  a_content :: jsval
  a_notes :: jsval

record activity = activityData +
  a_id :: string
  a_date :: dateKey

text \<open>
  The record of one date. \<open>EnglishManager\<close> guards against a record that has no
  \<open>englishActivities\<close> property, so that collection is optional in the model.
\<close>

record dateData =
  tasks :: "task list"
  dsTopics :: "dsTopic list"
  englishActivities :: "activity list option"

subsection \<open>StorageManager and AppState\<close>

text \<open>
  \<open>localStorage\<close> maps the key of a date to the JSON text of its record. Every value
  the managers store survives \<open>JSON.stringify\<close> and \<open>JSON.parse\<close> unchanged, so the
  model stores the record itself. Writes are taken to succeed (no quota).
\<close>

type_synonym storage = "dateKey \<rightharpoonup> dateData"

definition getDefaultDateData :: dateData where
  "getDefaultDateData = \<lparr>tasks = [], dsTopics = [], englishActivities = Some []\<rparr>"

definition getDateData :: "storage \<Rightarrow> dateKey \<Rightarrow> dateData" where
  "getDateData st key = (case st key of Some d \<Rightarrow> d | None \<Rightarrow> getDefaultDateData)"

definition saveDateData :: "dateKey \<Rightarrow> dateData \<Rightarrow> storage \<Rightarrow> storage" where
  "saveDateData key d st = st(key \<mapsto> d)"

text \<open>
  \<open>AppState\<close> after \<open>init\<close>, together with the storage and the container of the
  weekly overview, the one part of the page that is modelled.
\<close>

record day_card =
  card_day :: int
  card_date :: jsdate
  card_rate :: int

record world =
  currentDate :: jsdate
  currentData :: dateData
  editingTaskId :: "string option"
  localStorage :: storage
  weeklyStats :: "day_card list"

definition getCurrentDateString :: "world \<Rightarrow> dateKey" where
  "getCurrentDateString w = formatDate (currentDate w)"

definition save :: "world \<Rightarrow> world" where
  "save w = w\<lparr>localStorage := saveDateData (getCurrentDateString w) (currentData w) (localStorage w)\<rparr>"

subsection \<open>Generated ids\<close>

text \<open>
  \<open>generateId\<close> reads the clock and the random generator:
  \<open>Date.now().toString(36) + Math.random().toString(36).substr(2)\<close>. One reading of
  both is an \<open>entropy\<close>: the milliseconds of \<open>Date.now()\<close> and the text of
  \<open>Math.random().toString(36)\<close> (\<open>0.i\<close> for one half). Every call of
  \<open>generateId\<close> takes its own reading.
\<close>

record entropy =
  now :: nat
  random36 :: string

definition digit36 :: "nat \<Rightarrow> char" where
  "digit36 d = (if d < 10 then char_of (48 + d) else char_of (87 + d))"

function toString36 :: "nat \<Rightarrow> string" where
  "toString36 n = (if n < 36 then [digit36 n] else toString36 (n div 36) @ [digit36 (n mod 36)])"
  by pat_completeness auto
termination
  by (relation "measure (\<lambda>n. n)") auto

declare toString36.simps [simp del]

definition generateId :: "entropy \<Rightarrow> string" where
  "generateId e = toString36 (now e) @ drop 2 (random36 e)"

subsection \<open>Array.prototype.sort and localeCompare\<close>

text \<open>
  \<open>a.localeCompare(b)\<close> compares by the collation of the locale, not by code units.
  In the Unicode collation that browsers use, the colon sorts before every digit, the
  digits sort by value, no two of these characters weigh the same, and a text sorts
  after each of its proper prefixes: the texts are compared as the lists of the
  weights of their characters.
\<close>

fun collation_weight :: "tchar \<Rightarrow> nat" where
  "collation_weight Colon = 0"
| "collation_weight D0 = 1"
| "collation_weight D1 = 2"
| "collation_weight D2 = 3"
| "collation_weight D3 = 4"
| "collation_weight D4 = 5"
| "collation_weight D5 = 6"
| "collation_weight D6 = 7"
| "collation_weight D7 = 8"
| "collation_weight D8 = 9"
| "collation_weight D9 = 10"

definition collation_key :: "time_text \<Rightarrow> nat list" where
  "collation_key a = map collation_weight a"

definition localeCompare :: "time_text \<Rightarrow> time_text \<Rightarrow> int" where
  "localeCompare a b =
     (if collation_key a < collation_key b then - 1
      else if collation_key a = collation_key b then 0 else 1)"

text \<open>
  \<open>Array.prototype.sort\<close> with a comparator is a stable sort. Every stable sort gives
  the same result for a consistent comparator; the model inserts from the right, an
  element going before the first one it does not exceed.
\<close>

fun insert_cmp :: "('a \<Rightarrow> 'a \<Rightarrow> int) \<Rightarrow> 'a \<Rightarrow> 'a list \<Rightarrow> 'a list" where
  "insert_cmp cmp x [] = [x]"
| "insert_cmp cmp x (y # ys) = (if cmp x y \<le> 0 then x # y # ys else y # insert_cmp cmp x ys)"

fun array_sort :: "('a \<Rightarrow> 'a \<Rightarrow> int) \<Rightarrow> 'a list \<Rightarrow> 'a list" where
  "array_sort cmp [] = []"
| "array_sort cmp (x # xs) = insert_cmp cmp x (array_sort cmp xs)"

definition byStartTime :: "task \<Rightarrow> task \<Rightarrow> int" where
  "byStartTime a b = localeCompare (startTime a) (startTime b)"

subsection \<open>TaskManager\<close>

definition sortTasks :: "world \<Rightarrow> world" where
  "sortTasks w = w\<lparr>currentData := (currentData w)\<lparr>tasks := array_sort byStartTime (tasks (currentData w))\<rparr>\<rparr>"

definition newTask :: "entropy \<Rightarrow> taskData \<Rightarrow> task" where
  "newTask e td =
     \<lparr>startTime = startTime td, endTime = endTime td, name = name td,
      category = category td, task_id = generateId e, completed = False\<rparr>"

definition addTask :: "entropy \<Rightarrow> taskData \<Rightarrow> world \<Rightarrow> task \<times> world" where
  "addTask e td w =
     (let t = newTask e td;
          w1 = w\<lparr>currentData := (currentData w)\<lparr>tasks := tasks (currentData w) @ [t]\<rparr>\<rparr>
      in (t, save (sortTasks w1)))"

text \<open>
  The loop of \<open>addRecurringTask\<close>, from iteration \<open>i\<close>: each iteration loads the
  record of its date from the storage, pushes a new task, sorts and stores the record.
\<close>

function addRecurringLoop ::
  "(int \<Rightarrow> entropy) \<Rightarrow> taskData \<Rightarrow> int \<Rightarrow> jsdate \<Rightarrow> int \<Rightarrow> storage \<Rightarrow> storage" where
  "addRecurringLoop es td numDays cur i st =
     (if i < numDays then
        (let targetDate = addDays cur i;
             dateString = formatDate targetDate;
             dateData = getDateData st dateString;
             t = newTask (es i) td;
             dateData' = dateData\<lparr>tasks := array_sort byStartTime (tasks dateData @ [t])\<rparr>
         in addRecurringLoop es td numDays cur (i + 1) (saveDateData dateString dateData' st))
      else st)"
  by pat_completeness auto
termination
  by (relation "measure (\<lambda>(es, td, numDays, cur, i, st). nat (numDays - i))") auto

declare addRecurringLoop.simps [simp del]

definition addRecurringTask :: "(int \<Rightarrow> entropy) \<Rightarrow> taskData \<Rightarrow> int \<Rightarrow> world \<Rightarrow> world" where
  "addRecurringTask es td numDays w =
     (let st = addRecurringLoop es td numDays (currentDate w) 0 (localStorage w)
      in w\<lparr>localStorage := st, currentData := getDateData st (getCurrentDateString w)\<rparr>)"

text \<open>
  \<open>find\<close> gives the first element that satisfies the predicate; assigning to its
  fields changes that element of the array.
\<close>

fun update_first :: "('a \<Rightarrow> bool) \<Rightarrow> ('a \<Rightarrow> 'a) \<Rightarrow> 'a list \<Rightarrow> 'a list" where
  "update_first P f [] = []"
| "update_first P f (x # xs) = (if P x then f x # xs else x # update_first P f xs)"

definition overwrite :: "taskData \<Rightarrow> task \<Rightarrow> task" where
  "overwrite td t =
     t\<lparr>startTime := startTime td, endTime := endTime td, name := name td, category := category td\<rparr>"

definition updateTask :: "string \<Rightarrow> taskData \<Rightarrow> world \<Rightarrow> world" where
  "updateTask i td w =
     (case find (\<lambda>t. task_id t = i) (tasks (currentData w)) of
        Some _ \<Rightarrow>
          save (sortTasks (w\<lparr>currentData := (currentData w)
            \<lparr>tasks := update_first (\<lambda>t. task_id t = i) (overwrite td) (tasks (currentData w))\<rparr>\<rparr>))
      | None \<Rightarrow> w)"

definition deleteTask :: "string \<Rightarrow> world \<Rightarrow> world" where
  "deleteTask i w =
     save (w\<lparr>currentData := (currentData w)
       \<lparr>tasks := filter (\<lambda>t. task_id t \<noteq> i) (tasks (currentData w))\<rparr>\<rparr>)"

definition toggleTask :: "string \<Rightarrow> world \<Rightarrow> world" where
  "toggleTask i w =
     (case find (\<lambda>t. task_id t = i) (tasks (currentData w)) of
        Some _ \<Rightarrow>
          save (w\<lparr>currentData := (currentData w)
            \<lparr>tasks := update_first (\<lambda>t. task_id t = i) (\<lambda>t. t\<lparr>completed := \<not> completed t\<rparr>)
                       (tasks (currentData w))\<rparr>\<rparr>)
      | None \<Rightarrow> w)"

subsection \<open>Numbers: the double arithmetic of the completion rate\<close>

text \<open>
  \<open>Math.round((completed / total) * 100)\<close> divides and multiplies in IEEE 754 double
  precision: each operation gives the double nearest to the exact result, ties going
  to the even significand. A finite double is \<open>mant * 2 ^ expo\<close> with a significand of
  at most 53 bits. The counts of a task list are far inside the normal range, so
  neither overflow nor subnormal numbers are modelled.
\<close>

record dbl =
  mant :: int
  expo :: int

function bit_length :: "int \<Rightarrow> nat" where
  "bit_length n = (if n \<le> 0 then 0 else Suc (bit_length (n div 2)))"
  by pat_completeness auto
termination
  by (relation "measure nat") auto

declare bit_length.simps [simp del]

text \<open>The integer nearest to \<open>n / d\<close>, ties to even.\<close>

definition round_half_even :: "int \<Rightarrow> int \<Rightarrow> int" where
  "round_half_even n d =
     (let q = n div d; r = n mod d
      in if 2 * r < d then q else if d < 2 * r then q + 1 else if even q then q else q + 1)"

text \<open>\<open>2 ^ k \<le> n / d\<close>, for an integer \<open>k\<close> of either sign.\<close>

definition pow2_le :: "int \<Rightarrow> int \<Rightarrow> int \<Rightarrow> bool" where
  "pow2_le k n d = (if 0 \<le> k then d * 2 ^ nat k \<le> n else d \<le> n * 2 ^ nat (- k))"

text \<open>
  The double nearest to \<open>(n / d) * 2 ^ e\<close>, for positive \<open>n\<close> and \<open>d\<close>: with
  \<open>2 ^ E \<le> n / d < 2 ^ (E + 1)\<close>, the quotient is rounded to a multiple of
  \<open>2 ^ (E - 52)\<close>.
\<close>

definition fl :: "int \<Rightarrow> int \<Rightarrow> int \<Rightarrow> dbl" where
  "fl n d e =
     (if n = 0 then \<lparr>mant = 0, expo = 0\<rparr>
      else
        (let k = int (bit_length n) - int (bit_length d);
             E = (if pow2_le k n d then k else k - 1);
             s = E - 52;
             m = (if 0 \<le> s then round_half_even n (d * 2 ^ nat s)
                  else round_half_even (n * 2 ^ nat (- s)) d)
         in \<lparr>mant = m, expo = s + e\<rparr>))"

text \<open>The quotient \<open>a / b\<close> of two counts, and the product of a double and a count.\<close>

definition js_divide :: "nat \<Rightarrow> nat \<Rightarrow> dbl" where
  "js_divide a b = fl (int a) (int b) 0"

definition js_times :: "dbl \<Rightarrow> nat \<Rightarrow> dbl" where
  "js_times x k = fl (mant x * int k) 1 (expo x)"

text \<open>\<open>Math.round\<close>: the integer nearest to the double, ties going up.\<close>

definition Math_round :: "dbl \<Rightarrow> int" where
  "Math_round x =
     (if 0 \<le> expo x then mant x * 2 ^ nat (expo x)
      else (2 * mant x + 2 ^ nat (- expo x)) div 2 ^ nat (1 - expo x))"

text \<open>
  The expression both \<open>getStats\<close> and \<open>renderWeeklyOverview\<close> write out:
  \<open>total > 0 ? Math.round((completed / total) * 100) : 0\<close>.
\<close>

definition rate_of :: "nat \<Rightarrow> nat \<Rightarrow> int" where
  "rate_of total_n completed_n =
     (if total_n > 0 then Math_round (js_times (js_divide completed_n total_n) 100) else 0)"

record stats =
  total :: nat
  completedCount :: nat
  rate :: int

definition getStats :: "world \<Rightarrow> stats" where
  "getStats w =
     (let total_n = length (tasks (currentData w));
          completed_n = length (filter completed (tasks (currentData w)))
      in \<lparr>total = total_n, completedCount = completed_n, rate = rate_of total_n completed_n\<rparr>)"

subsection \<open>String.prototype.trim and parseInt\<close>

text \<open>White space and line terminators among the code units below 256.\<close>

definition is_space :: "char \<Rightarrow> bool" where
  "is_space c = ((of_char c :: nat) \<in> {9, 10, 11, 12, 13, 32, 160})"

definition trim :: "string \<Rightarrow> string" where
  "trim s = rev (dropWhile is_space (rev (dropWhile is_space s)))"

text \<open>
  The method call \<open>v.trim()\<close>: \<open>null\<close> and \<open>undefined\<close> have no properties, and a
  number or a boolean has no \<open>trim\<close> to call; each of these throws a TypeError.
\<close>

fun js_trim :: "jsval \<Rightarrow> js_error + string" where
  "js_trim (JStr s) = Inr (trim s)"
| "js_trim v = Inl TypeError"

text \<open>
  An operation that can throw returns the exception together with the world as the
  throw leaves it, or the world it returns in.
\<close>

type_synonym outcome = "(js_error \<times> world) + world"

definition digit_val :: "char \<Rightarrow> nat" where
  "digit_val c =
     (let k = (of_char c :: nat)
      in if 48 \<le> k \<and> k \<le> 57 then k - 48
         else if 97 \<le> k \<and> k \<le> 122 then k - 87
         else if 65 \<le> k \<and> k \<le> 90 then k - 55
         else 36)"

definition digits_value :: "nat \<Rightarrow> string \<Rightarrow> nat" where
  "digits_value radix ds = foldl (\<lambda>a c. a * radix + digit_val c) 0 ds"

text \<open>
  The numbers that \<open>parseInt\<close> and the sums of the summaries produce: a finite
  number, which is an integer here, an infinity or \<open>NaN\<close>.
\<close>

datatype jsnum = Num int | PosInf | NegInf | NaN

text \<open>
  The double nearest to an integer, ties to the even significand: every integer up
  to \<open>2 ^ 53\<close> in magnitude is a double, a larger one is rounded to 53 bits.
\<close>

definition round53 :: "int \<Rightarrow> int" where
  "round53 n =
     (if \<bar>n\<bar> \<le> 2 ^ 53 then n
      else (let s = bit_length \<bar>n\<bar> - 53
            in sgn n * (round_half_even \<bar>n\<bar> (2 ^ s) * 2 ^ s)))"

text \<open>The largest finite double; what rounds beyond it is an infinity.\<close>

definition max_double :: int where
  "max_double = (2 ^ 53 - 1) * 2 ^ 971"

definition to_number :: "int \<Rightarrow> jsnum" where
  "to_number n =
     (let v = round53 n
      in if max_double < v then PosInf else if v < - max_double then NegInf else Num v)"

text \<open>The operator \<open>+\<close> on numbers: the exact sum, rounded.\<close>

fun js_plus :: "jsnum \<Rightarrow> jsnum \<Rightarrow> jsnum" where
  "js_plus (Num a) (Num b) = to_number (a + b)"
| "js_plus NaN y = NaN"
| "js_plus x NaN = NaN"
| "js_plus PosInf NegInf = NaN"
| "js_plus NegInf PosInf = NaN"
| "js_plus PosInf y = PosInf"
| "js_plus x PosInf = PosInf"
| "js_plus NegInf y = NegInf"
| "js_plus x NegInf = NegInf"

text \<open>
  \<open>parseInt\<close> of a string: leading white space, a sign, a \<open>0x\<close> prefix, then the
  longest run of digits of the radix, read as an integer and rounded to a double as
  engines do; \<open>NaN\<close> when there is no digit.
\<close>

definition parseInt_string :: "string \<Rightarrow> jsnum" where
  "parseInt_string s =
     (let s1 = dropWhile is_space s;
          neg = (s1 \<noteq> [] \<and> hd s1 = CHR ''-'');
          s2 = (if s1 \<noteq> [] \<and> (hd s1 = CHR ''-'' \<or> hd s1 = CHR ''+'') then tl s1 else s1);
          hex = (take 2 s2 = ''0x'' \<or> take 2 s2 = ''0X'');
          radix = (if hex then 16 else 10);
          s3 = (if hex then drop 2 s2 else s2);
          ds = takeWhile (\<lambda>c. digit_val c < radix) s3
      in if ds = [] then NaN
         else to_number ((if neg then - 1 else 1) * int (digits_value radix ds)))"

text \<open>
  \<open>parseInt\<close> of a value reads its text: \<open>undefined\<close>, \<open>null\<close>, \<open>true\<close> and \<open>false\<close>
  have no digit, and the decimal text of an integer below \<open>2 ^ 32\<close> reads back as the
  integer.
\<close>

fun parseInt :: "jsval \<Rightarrow> jsnum" where
  "parseInt (JStr s) = parseInt_string s"
| "parseInt (JNum n) = Num (uint n)"
| "parseInt v = NaN"

text \<open>\<open>parseInt(x) || 0\<close>: \<open>NaN\<close> and 0 are falsy, every other number is truthy.\<close>

definition parseInt_or_0 :: "jsval \<Rightarrow> jsnum" where
  "parseInt_or_0 v = (case parseInt v of NaN \<Rightarrow> Num 0 | n \<Rightarrow> n)"

subsection \<open>DSTopicManager\<close>

definition addTopic :: "entropy \<Rightarrow> topicData \<Rightarrow> world \<Rightarrow> outcome" where
  "addTopic e topicData w =
     (case js_trim (topic topicData) of
        Inl err \<Rightarrow> Inl (err, w)
      | Inr trimmed \<Rightarrow>
          if trimmed \<noteq> [] then
            (case js_trim (notes_t topicData) of
               Inl err \<Rightarrow> Inl (err, w)
             | Inr n \<Rightarrow>
                 (let t = \<lparr>topic = JStr trimmed,
                           duration = js_or (duration topicData) JNull,
                           difficulty = js_or (difficulty topicData) (JStr ''Intermediate''),
                           resource = js_or (resource topicData) (JStr ''Other''),
                           notes_t = js_or (JStr n) JNull,
                           topic_id = generateId e,
                           date = getCurrentDateString w\<rparr>
                  in Inr (save (w\<lparr>currentData := (currentData w)
                       \<lparr>dsTopics := dsTopics (currentData w) @ [t]\<rparr>\<rparr>))))
          else Inr w)"

definition deleteTopic :: "string \<Rightarrow> world \<Rightarrow> world" where
  "deleteTopic i w =
     save (w\<lparr>currentData := (currentData w)
       \<lparr>dsTopics := filter (\<lambda>t. topic_id t \<noteq> i) (dsTopics (currentData w))\<rparr>\<rparr>)"

definition getTopics :: "world \<Rightarrow> dsTopic list" where
  "getTopics w = dsTopics (currentData w)"

record topicSummary =
  totalSessions :: nat
  totalMinutes :: jsnum

definition getSummary :: "world \<Rightarrow> topicSummary" where
  "getSummary w =
     (let topics = getTopics w
      in \<lparr>totalSessions = length topics,
          totalMinutes =
            foldl (\<lambda>sum t. js_plus sum (parseInt_or_0 (duration t))) (Num 0) topics\<rparr>)"

subsection \<open>EnglishManager\<close>

definition addActivity :: "entropy \<Rightarrow> activityData \<Rightarrow> world \<Rightarrow> outcome" where
  "addActivity e activityData w =
     (case js_trim (a_content activityData) of
        Inl err \<Rightarrow> Inl (err, w)
      | Inr c \<Rightarrow>
          (case js_trim (a_notes activityData) of
             Inl err \<Rightarrow> Inl (err, w)
           | Inr n \<Rightarrow>
               (let a = \<lparr>a_type = a_type activityData,
                         a_duration = js_or (a_duration activityData) JNull,
                         a_completed = JBool (a_completed activityData = JStr ''true''),
                         a_content = js_or (JStr c) JNull,
                         a_notes = js_or (JStr n) JNull,
                         a_id = generateId e,
                         a_date = getCurrentDateString w\<rparr>;
                    present = (case englishActivities (currentData w) of
                                 None \<Rightarrow> [] | Some xs \<Rightarrow> xs)
                in Inr (save (w\<lparr>currentData := (currentData w)
                     \<lparr>englishActivities := Some (present @ [a])\<rparr>\<rparr>)))))"

definition deleteActivity :: "string \<Rightarrow> world \<Rightarrow> world" where
  "deleteActivity i w =
     (case englishActivities (currentData w) of
        None \<Rightarrow> w
      | Some xs \<Rightarrow>
          save (w\<lparr>currentData := (currentData w)
            \<lparr>englishActivities := Some (filter (\<lambda>a. a_id a \<noteq> i) xs)\<rparr>\<rparr>))"

definition getActivities :: "world \<Rightarrow> activity list" where
  "getActivities w = (case englishActivities (currentData w) of None \<Rightarrow> [] | Some xs \<Rightarrow> xs)"

record activitySummary =
  totalActivities :: nat
  completedActivities :: nat
  totalMinutes_a :: jsnum

definition getSummary_a :: "world \<Rightarrow> activitySummary" where
  "getSummary_a w =
     (let activities = getActivities w
      in \<lparr>totalActivities = length activities,
          completedActivities = length (filter (\<lambda>a. truthy (a_completed a)) activities),
          totalMinutes_a =
            foldl (\<lambda>sum a. js_plus sum (parseInt_or_0 (a_duration a))) (Num 0) activities\<rparr>)"

subsection \<open>The weekly overview\<close>

text \<open>
  The loop of \<open>renderWeeklyOverview\<close>, from iteration \<open>i\<close>. A card of the markup holds
  the short weekday name, the month and day, and the rate; the model keeps the weekday
  number and the date they are printed from.
\<close>

function weeklyLoop :: "storage \<Rightarrow> jsdate \<Rightarrow> int \<Rightarrow> day_card list \<Rightarrow> day_card list" where
  "weeklyLoop st startOfWeek i html =
     (if i < 7 then
        (let d = addDays startOfWeek i;
             dateString = formatDate d;
             dat = getDateData st dateString;
             total_n = length (tasks dat);
             completed_n = length (filter completed (tasks dat));
             r = (if total_n > 0 then Math_round (js_times (js_divide completed_n total_n) 100) else 0)
         in weeklyLoop st startOfWeek (i + 1)
              (html @ [\<lparr>card_day = getDay d, card_date = d, card_rate = r\<rparr>]))
      else html)"
  by pat_completeness auto
termination
  by (relation "measure (\<lambda>(st, startOfWeek, i, html). nat (7 - i))") auto

declare weeklyLoop.simps [simp del]

definition renderWeeklyOverview :: "world \<Rightarrow> world" where
  "renderWeeklyOverview w =
     w\<lparr>weeklyStats := weeklyLoop (localStorage w) (getStartOfWeek (currentDate w)) 0 []\<rparr>"

section \<open>Vocabulary of the properties\<close>

subsection \<open>The ordering invariant\<close>

text \<open>The order \<open>sortTasks\<close> establishes: the collation keys of the start times ascend.\<close>

definition tasks_sorted :: "dateData \<Rightarrow> bool" where
  "tasks_sorted d = sorted (map (\<lambda>t. collation_key (startTime t)) (tasks d))"

text \<open>The active record and every stored record are sorted.\<close>

definition world_sorted :: "world \<Rightarrow> bool" where
  "world_sorted w =
     (tasks_sorted (currentData w) \<and> (\<forall>k d. localStorage w k = Some d \<longrightarrow> tasks_sorted d))"








text \<open>The task mutations, so that a sequence of them is a list.\<close>

datatype task_mutation =
  Add entropy taskData
| AddRecurring "int \<Rightarrow> entropy" taskData int
| Update string taskData

fun mutate :: "world \<Rightarrow> task_mutation \<Rightarrow> world" where
  "mutate w (Add e td) = snd (addTask e td w)"
| "mutate w (AddRecurring es td numDays) = addRecurringTask es td numDays w"
| "mutate w (Update i td) = updateTask i td w"


text \<open>What one iteration of \<open>addRecurringTask\<close> does to the record it loaded.\<close>

definition pushSorted :: "task \<Rightarrow> dateData \<Rightarrow> dateData" where
  "pushSorted t d = d\<lparr>tasks := array_sort byStartTime (tasks d @ [t])\<rparr>"

subsection \<open>Readings of the clock and the random generator\<close>

text \<open>
  The texts \<open>Math.random().toString(36)\<close> gives for a number from 0 up to 1: \<open>0\<close>, or
  \<open>0.\<close> and at least one digit.
\<close>

definition random_text :: "string \<Rightarrow> bool" where
  "random_text r = (r = ''0'' \<or> (take 2 r = ''0.'' \<and> 2 < length r))"

text \<open>
  A reading that can stand beside \<open>e\<close>: its random text is well formed, its clock
  prints with as many digits as the clock of \<open>e\<close> (eight for every time from 1972 to
  2059), and the clock or the random text differs from that of \<open>e\<close>.
\<close>

definition other_reading :: "entropy \<Rightarrow> entropy \<Rightarrow> bool" where
  "other_reading e r =
     (random_text (random36 r)
      \<and> length (toString36 (now r)) = length (toString36 (now e))
      \<and> (now r \<noteq> now e \<or> random36 r \<noteq> random36 e))"

subsection \<open>The rate the specification asks for\<close>

text \<open>
  The specification's completion rate, in its own words: \<open>round(100 * completed/total)\<close>
  to the nearest integer, halves up, over the exact quotient; 0 when there is no task.
\<close>

definition spec_rate :: "nat \<Rightarrow> nat \<Rightarrow> int" where
  "spec_rate total_n completed_n =
     (if total_n > 0 then (200 * int completed_n + int total_n) div (2 * int total_n) else 0)"

subsection \<open>Strings among the values\<close>

definition is_string :: "jsval \<Rightarrow> bool" where
  "is_string v = (case v of JStr _ \<Rightarrow> True | _ \<Rightarrow> False)"

definition trims_nonempty :: "jsval \<Rightarrow> bool" where
  "trims_nonempty v = (case v of JStr s \<Rightarrow> trim s \<noteq> [] | _ \<Rightarrow> False)"

text \<open>A decimal digit, and the sign a text starts with.\<close>

definition is_decimal :: "char \<Rightarrow> bool" where
  "is_decimal c = (digit_val c < 10)"

definition is_sign :: "char \<Rightarrow> bool" where
  "is_sign c = (c = CHR ''-'' \<or> c = CHR ''+'')"

text \<open>The sign a text may carry: none, a minus or a plus; and the number it then denotes.\<close>

definition sign_text :: "string \<Rightarrow> bool" where
  "sign_text sg = (sg = [] \<or> sg = ''-'' \<or> sg = ''+'')"

definition signed :: "string \<Rightarrow> nat \<Rightarrow> int" where
  "signed sg n = (if sg = ''-'' then - int n else int n)"

text \<open>A hexadecimal digit, and the prefix that announces such digits.\<close>

definition is_hex :: "char \<Rightarrow> bool" where
  "is_hex c = (digit_val c < 16)"

definition hex_prefix :: "string \<Rightarrow> bool" where
  "hex_prefix px = (px = ''0x'' \<or> px = ''0X'')"

subsection \<open>The week\<close>

text \<open>The card one iteration of \<open>renderWeeklyOverview\<close> appends.\<close>

definition week_card :: "storage \<Rightarrow> jsdate \<Rightarrow> day_card" where
  "week_card st d =
     \<lparr>card_day = getDay d, card_date = d,
      card_rate = rate_of (length (tasks (getDateData st (formatDate d))))
                    (length (filter completed (tasks (getDateData st (formatDate d)))))\<rparr>"

subsection \<open>Concrete inputs\<close>

definition reading1 :: entropy where
  "reading1 = \<lparr>now = 1765000000000, random36 = ''0.i''\<rparr>"

definition readings :: "int \<Rightarrow> entropy" where
  "readings i = \<lparr>now = 1765000000010 + nat i, random36 = ''0.r''\<rparr>"

definition lecture :: taskData where
  "lecture = \<lparr>startTime = [D0, D9, Colon, D0, D0], endTime = ''10:30'', name = ''Lecture'', category = ''Study''\<rparr>"

definition commute :: taskData where
  "commute = \<lparr>startTime = [D0, D8, Colon, D0, D0], endTime = ''08:45'', name = ''Bus'', category = ''Travel''\<rparr>"

definition lecture_task :: task where
  "lecture_task =
     \<lparr>startTime = [D0, D9, Colon, D0, D0], endTime = ''10:30'', name = ''Lecture'', category = ''Study'',
      task_id = ''a1'', completed = True\<rparr>"

definition commute_task :: task where
  "commute_task =
     \<lparr>startTime = [D0, D8, Colon, D0, D0], endTime = ''08:45'', name = ''Bus'', category = ''Travel'',
      task_id = ''b2'', completed = False\<rparr>"

definition empty_world :: world where
  "empty_world =
     \<lparr>currentDate = 20424, currentData = getDefaultDateData, editingTaskId = None,
      localStorage = Map.empty, weeklyStats = []\<rparr>"

definition one_task_day :: dateData where
  "one_task_day = \<lparr>tasks = [lecture_task], dsTopics = [], englishActivities = Some []\<rparr>"

definition one_task_world :: world where
  "one_task_world =
     \<lparr>currentDate = 20424, currentData = one_task_day, editingTaskId = None,
      localStorage = [DateKey 20424 \<mapsto> one_task_day], weeklyStats = []\<rparr>"

text \<open>A day of 40 tasks, the 17 at 08:00 open and the 23 at 09:00 completed.\<close>

definition forty_tasks_world :: world where
  "forty_tasks_world =
     \<lparr>currentDate = 20424,
      currentData =
        \<lparr>tasks = map (\<lambda>i. commute_task\<lparr>task_id := toString36 i\<rparr>) [0..<17]
                 @ map (\<lambda>i. lecture_task\<lparr>task_id := toString36 (17 + i)\<rparr>) [0..<23],
         dsTopics = [], englishActivities = Some []\<rparr>,
      editingTaskId = None, localStorage = Map.empty, weeklyStats = []\<rparr>"

definition linear_algebra :: topicData where
  "linear_algebra =
     \<lparr>topic = JStr ''Linear Algebra'', duration = JUndefined, difficulty = JUndefined,
      resource = JUndefined, notes_t = JStr ''''\<rparr>"

definition graphs :: topicData where
  "graphs =
     \<lparr>topic = JStr '' Graphs '', duration = JStr ''abc'', difficulty = JStr ''Advanced'',
      resource = JStr ''Book'', notes_t = JStr '' BFS ''\<rparr>"

definition podcast :: activityData where
  "podcast =
     \<lparr>a_type = JStr ''Podcast'', a_duration = JStr ''20'', a_completed = JBool True,
      a_content = JStr '''', a_notes = JStr '' new words ''\<rparr>"

definition stored_topic :: "jsval \<Rightarrow> dsTopic" where
  "stored_topic d =
     \<lparr>topic = JStr ''t'', duration = d, difficulty = JStr ''Intermediate'',
      resource = JStr ''Other'', notes_t = JNull, topic_id = ''c3'', date = DateKey 20424\<rparr>"

definition topics_world :: "jsval list \<Rightarrow> world" where
  "topics_world ds =
     \<lparr>currentDate = 20424,
      currentData = \<lparr>tasks = [], dsTopics = map stored_topic ds, englishActivities = Some []\<rparr>,
      editingTaskId = None, localStorage = Map.empty, weeklyStats = []\<rparr>"

text \<open>Tuesday 2 December 2025, with the Wednesday of its week stored as 23 of 40.\<close>

definition week_world :: world where
  "week_world =
     \<lparr>currentDate = 20424, currentData = getDefaultDateData, editingTaskId = None,
      localStorage = [DateKey 20425 \<mapsto> currentData forty_tasks_world], weeklyStats = []\<rparr>"

text \<open>A day with three tasks, a study topic and a practice activity.\<close>

definition seminar_task :: task where
  "seminar_task =
     \<lparr>startTime = [D1, D4, Colon, D0, D0], endTime = ''15:00'', name = ''Seminar'',
      category = ''Study'', task_id = ''c3'', completed = False\<rparr>"

definition busy_day :: dateData where
  "busy_day =
     \<lparr>tasks = [commute_task, lecture_task, seminar_task],
      dsTopics = [stored_topic (JStr ''45'')],
      englishActivities = Some
        [\<lparr>a_type = JStr ''Reading'', a_duration = JNull, a_completed = JBool True,
          a_content = JNull, a_notes = JNull, a_id = ''d4'', a_date = DateKey 20424\<rparr>]\<rparr>"

definition busy_world :: world where
  "busy_world =
     \<lparr>currentDate = 20424, currentData = busy_day, editingTaskId = None,
      localStorage = [DateKey 20424 \<mapsto> busy_day], weeklyStats = []\<rparr>"

definition evening :: taskData where
  "evening =
     \<lparr>startTime = [D1, D8, Colon, D3, D0], endTime = ''19:00'', name = ''Review'',
      category = ''Study''\<rparr>"



text \<open>Readings one millisecond and one random draw apart.\<close>

definition reading2 :: entropy where
  "reading2 = \<lparr>now = 1765000000001, random36 = ''0.i''\<rparr>"

definition reading3 :: entropy where
  "reading3 = \<lparr>now = 1765000000000, random36 = ''0.9''\<rparr>"

definition generated_day :: dateData where
  "generated_day =
     \<lparr>tasks = [newTask reading2 commute, newTask reading3 lecture], dsTopics = [],
      englishActivities = Some []\<rparr>"

definition generated_world :: world where
  "generated_world =
     \<lparr>currentDate = 20424, currentData = generated_day, editingTaskId = None,
      localStorage = [DateKey 20424 \<mapsto> generated_day, DateKey 20425 \<mapsto> generated_day],
      weeklyStats = []\<rparr>"

section \<open>Sorting\<close>



lemma insert_cmp_insort:
  "insert_cmp byStartTime x xs = insort_key (\<lambda>t. collation_key (startTime t)) x xs"
  by (induction xs) (auto simp: byStartTime_def localeCompare_def)

lemma array_sort_sort_key:
  "array_sort byStartTime xs = sort_key (\<lambda>t. collation_key (startTime t)) xs"
  by (induction xs) (simp_all add: insert_cmp_insort)

lemma sorted_array_sort:
  "sorted (map (\<lambda>t. collation_key (startTime t)) (array_sort byStartTime xs))"
  by (simp add: array_sort_sort_key)


lemma mset_array_sort: "mset (array_sort byStartTime xs) = mset xs"
  by (simp add: array_sort_sort_key)







lemma addRecurringLoop_lookup:
  "addRecurringLoop es td n cur i st (DateKey d) =
     (if cur + i \<le> d \<and> d < cur + n
      then Some (pushSorted (newTask (es (d - cur)) td) (getDateData st (DateKey d)))
      else st (DateKey d))"
proof (induction es td n cur i st rule: addRecurringLoop.induct)
  case (1 es td n cur i st)
  show ?case
  proof (cases "i < n")
    case False
    then show ?thesis
      by (subst addRecurringLoop.simps) auto
  next
    case True
    let ?k = "formatDate (addDays cur i)"
    let ?x = "pushSorted (newTask (es i) td) (getDateData st ?k)"
    have step: "addRecurringLoop es td n cur i st
        = addRecurringLoop es td n cur (i + 1) (saveDateData ?k ?x st)"
      using True by (subst addRecurringLoop.simps) (simp add: pushSorted_def Let_def)
    have ih: "addRecurringLoop es td n cur (i + 1) (saveDateData ?k ?x st) (DateKey d) =
        (if cur + (i + 1) \<le> d \<and> d < cur + n
         then Some (pushSorted (newTask (es (d - cur)) td)
                 (getDateData (saveDateData ?k ?x st) (DateKey d)))
         else saveDateData ?k ?x st (DateKey d))"
      using "1.IH"[OF True refl refl refl refl refl] by (simp add: pushSorted_def)
    show ?thesis
    proof (cases "d = cur + i")
      case True
      with \<open>i < n\<close> show ?thesis
        unfolding step ih by (simp add: saveDateData_def formatDate_def addDays_def)
    next
      case False
      then have "getDateData (saveDateData ?k ?x st) (DateKey d) = getDateData st (DateKey d)"
        by (simp add: getDateData_def saveDateData_def formatDate_def addDays_def)
      with False show ?thesis
        unfolding step ih by (auto simp add: saveDateData_def formatDate_def addDays_def)
    qed
  qed
qed


lemma tasks_sorted_pushSorted: "tasks_sorted (pushSorted t d)"
  by (simp add: tasks_sorted_def pushSorted_def sorted_array_sort)

lemma tasks_sorted_default: "tasks_sorted getDefaultDateData"
  by (simp add: tasks_sorted_def getDefaultDateData_def)


lemma addTask_tasks:
  "tasks (currentData (snd (addTask e td w)))
     = array_sort byStartTime (tasks (currentData w) @ [newTask e td])"
  by (simp add: addTask_def sortTasks_def save_def Let_def)

lemma updateTask_tasks:
  "tasks (currentData (updateTask i td w)) =
     (case find (\<lambda>t. task_id t = i) (tasks (currentData w)) of
        None \<Rightarrow> tasks (currentData w)
      | Some _ \<Rightarrow> array_sort byStartTime
          (update_first (\<lambda>t. task_id t = i) (overwrite td) (tasks (currentData w))))"
  by (simp add: updateTask_def sortTasks_def save_def split: option.split)

lemma world_sorted_save:
  "tasks_sorted (currentData w) \<Longrightarrow> \<forall>k d. localStorage w k = Some d \<longrightarrow> tasks_sorted d
     \<Longrightarrow> world_sorted (save w)"
  by (simp add: world_sorted_def save_def saveDateData_def)

lemma world_sorted_addTask: "world_sorted w \<Longrightarrow> world_sorted (snd (addTask e td w))"
  by (simp add: addTask_def Let_def world_sorted_def sortTasks_def save_def saveDateData_def
      tasks_sorted_def sorted_array_sort)

lemma world_sorted_updateTask: "world_sorted w \<Longrightarrow> world_sorted (updateTask i td w)"
  by (simp add: updateTask_def world_sorted_def sortTasks_def save_def saveDateData_def
      tasks_sorted_def sorted_array_sort split: option.split)

lemma addRecurringTask_day:
  "getDateData (localStorage (addRecurringTask es td n w)) (formatDate (addDays (currentDate w) j))
     = (if 0 \<le> j \<and> j < n
        then pushSorted (newTask (es j) td)
               (getDateData (localStorage w) (formatDate (addDays (currentDate w) j)))
        else getDateData (localStorage w) (formatDate (addDays (currentDate w) j)))"
  by (simp add: addRecurringTask_def Let_def formatDate_def addDays_def getDateData_def
      addRecurringLoop_lookup)

lemma tasks_sorted_getDateData:
  "\<forall>k d. st k = Some d \<longrightarrow> tasks_sorted d \<Longrightarrow> tasks_sorted (getDateData st key)"
  by (auto simp: getDateData_def tasks_sorted_default split: option.split)

lemma addRecurringLoop_sorted:
  assumes "\<forall>k d. st k = Some d \<longrightarrow> tasks_sorted d"
  shows "\<forall>k d. addRecurringLoop es td n cur 0 st k = Some d \<longrightarrow> tasks_sorted d"
proof (intro allI impI)
  fix k d assume h: "addRecurringLoop es td n cur 0 st k = Some d"
  obtain x where k: "k = DateKey x" by (cases k)
  show "tasks_sorted d"
    using h assms unfolding k addRecurringLoop_lookup
    by (auto simp: tasks_sorted_pushSorted split: if_splits)
qed

lemma world_sorted_addRecurringTask:
  assumes "world_sorted w"
  shows "world_sorted (addRecurringTask es td n w)"
proof -
  from assms have st: "\<forall>k d. localStorage w k = Some d \<longrightarrow> tasks_sorted d"
    by (simp add: world_sorted_def)
  have st': "\<forall>k d. addRecurringLoop es td n (currentDate w) 0 (localStorage w) k = Some d
      \<longrightarrow> tasks_sorted d"
    by (rule addRecurringLoop_sorted[OF st])
  show ?thesis
    using st' tasks_sorted_getDateData[OF st']
    by (simp add: world_sorted_def addRecurringTask_def Let_def)
qed

lemma world_sorted_mutate: "world_sorted w \<Longrightarrow> world_sorted (mutate w m)"
  by (cases m) (simp_all add: world_sorted_addTask world_sorted_addRecurringTask
      world_sorted_updateTask)

lemma world_sorted_foldl: "world_sorted w \<Longrightarrow> world_sorted (foldl mutate w ms)"
  by (induction ms arbitrary: w) (simp_all add: world_sorted_mutate)

















section \<open>Created tasks\<close>

lemma digit_val_digit36: "d < 36 \<Longrightarrow> digit_val (digit36 d) = d"
  by (simp add: digit_val_def digit36_def Let_def)

lemma digits_value_snoc: "digits_value r (ds @ [c]) = digits_value r ds * r + digit_val c"
  by (simp add: digits_value_def)

lemma digits_value_toString36: "digits_value 36 (toString36 n) = n"
proof (induction n rule: toString36.induct)
  case (1 n)
  show ?case
  proof (cases "n < 36")
    case True
    then show ?thesis
      by (subst toString36.simps) (simp add: digits_value_def digit_val_digit36)
  next
    case False
    then have "digits_value 36 (toString36 (n div 36)) = n div 36"
      using "1.IH" by simp
    with False show ?thesis
      by (subst toString36.simps) (simp add: digits_value_snoc digit_val_digit36)
  qed
qed

lemma toString36_inject: "toString36 a = toString36 b \<Longrightarrow> a = b"
  by (metis digits_value_toString36)

lemma random_text_drop:
  assumes "random_text a" and "random_text b" and "drop 2 a = drop 2 b"
  shows "a = b"
proof (cases "a = ''0''")
  case True
  then have "drop 2 b = []"
    using assms(3) by simp
  with assms(2) True show ?thesis
    by (auto simp: random_text_def)
next
  case False
  with assms(1) have a: "take 2 a = ''0.''" and la: "2 < length a"
    by (simp_all add: random_text_def)
  then have "drop 2 b \<noteq> []"
    using assms(3) by (metis drop_eq_Nil not_le)
  with assms(2) have b: "take 2 b = ''0.''"
    by (auto simp: random_text_def)
  have "a = take 2 a @ drop 2 a" and "b = take 2 b @ drop 2 b"
    by simp_all
  with a b assms(3) show ?thesis
    by metis
qed

lemma generateId_inject:
  assumes "random_text (random36 e)" and "other_reading e r"
  shows "generateId r \<noteq> generateId e"
proof
  assume eq: "generateId r = generateId e"
  from assms(2) have len: "length (toString36 (now r)) = length (toString36 (now e))"
    and rt: "random_text (random36 r)"
    and diff: "now r \<noteq> now e \<or> random36 r \<noteq> random36 e"
    by (simp_all add: other_reading_def)
  from eq len have "toString36 (now r) = toString36 (now e)"
    and "drop 2 (random36 r) = drop 2 (random36 e)"
    by (simp_all add: generateId_def)
  then have "now r = now e" and "random36 r = random36 e"
    using rt assms(1) by (simp_all add: toString36_inject random_text_drop)
  with diff show False by simp
qed

lemma generateId_fresh:
  assumes "random_text (random36 e)" and "list_all (other_reading e) rs"
  shows "generateId e \<notin> set (map generateId rs)"
proof
  assume "generateId e \<in> set (map generateId rs)"
  then obtain r where r: "r \<in> set rs" and eq: "generateId r = generateId e"
    by auto
  from r assms(2) have "other_reading e r"
    by (simp add: list_all_iff)
  from generateId_inject[OF assms(1) this] eq show False
    by simp
qed


lemma distinct_ids_array_sort:
  "distinct (map task_id (array_sort byStartTime xs)) = distinct (map task_id xs)"
proof -
  have "mset (map task_id (array_sort byStartTime xs)) = mset (map task_id xs)"
    by (simp add: mset_array_sort)
  then show ?thesis
    by (rule mset_eq_imp_distinct_iff)
qed

lemma addTask_fst: "fst (addTask e td w) = newTask e td"
  by (simp add: addTask_def Let_def)

lemma addRecurringTask_other_day:
  "\<not> (0 \<le> j \<and> j < n) \<Longrightarrow>
     localStorage (addRecurringTask es td n w) (formatDate (addDays (currentDate w) j))
       = localStorage w (formatDate (addDays (currentDate w) j))"
  by (auto simp add: addRecurringTask_def Let_def formatDate_def addDays_def addRecurringLoop_lookup)

text \<open>
  Claim C2. \<open>addTask\<close> returns the task it created; the task has \<open>completed = false\<close>
  and the id generated from its own reading of the clock and the random generator,
  and the record gains exactly that task. The id is fresh: when the ids of the record
  were generated from other readings (the clock or the random text differs, the clock
  printing with as many digits), the new id is none of them, and ids that were
  distinct stay distinct. \<open>addRecurringTask\<close> over \<open>numDays\<close> days adds exactly one
  task, generated from the reading of its iteration, to the stored record of each of
  the days \<open>0 \<le> j < numDays\<close> from the anchor date; that id is fresh in the record of
  its day, the ids of two iterations with different readings differ, and the stored
  records of all other days are unchanged.
\<close>

theorem created_tasks:
  "fst (addTask e td w) = newTask e td
   \<and> completed (newTask e td) = False
   \<and> task_id (newTask e td) = generateId e
   \<and> mset (tasks (currentData (snd (addTask e td w))))
       = add_mset (newTask e td) (mset (tasks (currentData w)))
   \<and> (random_text (random36 e) \<and> list_all (other_reading e) rs
        \<and> map task_id (tasks (currentData w)) = map generateId rs
        \<longrightarrow> task_id (fst (addTask e td w)) \<notin> set (map task_id (tasks (currentData w)))
          \<and> (distinct (map task_id (tasks (currentData w)))
               \<longrightarrow> distinct (map task_id (tasks (currentData (snd (addTask e td w)))))))
   \<and> (0 \<le> j \<and> j < numDays \<longrightarrow>
        mset (tasks (getDateData (localStorage (addRecurringTask es td numDays w))
               (formatDate (addDays (currentDate w) j))))
          = add_mset (newTask (es j) td)
              (mset (tasks (getDateData (localStorage w) (formatDate (addDays (currentDate w) j))))))
   \<and> (random_text (random36 (es j)) \<and> list_all (other_reading (es j)) rs
        \<and> map task_id (tasks (getDateData (localStorage w)
              (formatDate (addDays (currentDate w) j)))) = map generateId rs
        \<longrightarrow> task_id (newTask (es j) td)
              \<notin> set (map task_id (tasks (getDateData (localStorage w)
                    (formatDate (addDays (currentDate w) j))))))
   \<and> (random_text (random36 (es j)) \<and> other_reading (es j) (es k)
        \<longrightarrow> task_id (newTask (es k) td) \<noteq> task_id (newTask (es j) td))
   \<and> (\<not> (0 \<le> j \<and> j < numDays) \<longrightarrow>
        localStorage (addRecurringTask es td numDays w) (formatDate (addDays (currentDate w) j))
          = localStorage w (formatDate (addDays (currentDate w) j)))"
proof (intro conjI impI)
  show "fst (addTask e td w) = newTask e td"
    by (rule addTask_fst)
  show "completed (newTask e td) = False" and "task_id (newTask e td) = generateId e"
    by (simp_all add: newTask_def)
  show "mset (tasks (currentData (snd (addTask e td w))))
       = add_mset (newTask e td) (mset (tasks (currentData w)))"
    by (simp add: addTask_tasks mset_array_sort)
next
  assume h: "random_text (random36 e) \<and> list_all (other_reading e) rs
        \<and> map task_id (tasks (currentData w)) = map generateId rs"
  then have "generateId e \<notin> set (map generateId rs)"
    using generateId_fresh[of e rs] by blast
  with h show new: "task_id (fst (addTask e td w)) \<notin> set (map task_id (tasks (currentData w)))"
    by (simp add: addTask_fst newTask_def)
  assume "distinct (map task_id (tasks (currentData w)))"
  with new show "distinct (map task_id (tasks (currentData (snd (addTask e td w)))))"
    by (simp add: addTask_tasks distinct_ids_array_sort addTask_fst)
next
  assume "0 \<le> j \<and> j < numDays"
  then show "mset (tasks (getDateData (localStorage (addRecurringTask es td numDays w))
               (formatDate (addDays (currentDate w) j))))
          = add_mset (newTask (es j) td)
              (mset (tasks (getDateData (localStorage w) (formatDate (addDays (currentDate w) j)))))"
    by (simp add: addRecurringTask_day pushSorted_def mset_array_sort)
next
  assume h: "random_text (random36 (es j)) \<and> list_all (other_reading (es j)) rs
        \<and> map task_id (tasks (getDateData (localStorage w)
              (formatDate (addDays (currentDate w) j)))) = map generateId rs"
  then have "generateId (es j) \<notin> set (map generateId rs)"
    using generateId_fresh[of "es j" rs] by blast
  with h show "task_id (newTask (es j) td)
              \<notin> set (map task_id (tasks (getDateData (localStorage w)
                    (formatDate (addDays (currentDate w) j)))))"
    by (simp add: newTask_def)
next
  assume "random_text (random36 (es j)) \<and> other_reading (es j) (es k)"
  then show "task_id (newTask (es k) td) \<noteq> task_id (newTask (es j) td)"
    by (simp add: newTask_def generateId_inject)
next
  assume "\<not> (0 \<le> j \<and> j < numDays)"
  then show "localStorage (addRecurringTask es td numDays w) (formatDate (addDays (currentDate w) j))
          = localStorage w (formatDate (addDays (currentDate w) j))"
    by (rule addRecurringTask_other_day)
qed

lemma clock_lengths:
  "length (toString36 1765000000000) = 8 \<and> length (toString36 1765000000001) = 8
   \<and> length (toString36 1765000000010) = 8 \<and> length (toString36 1765000000011) = 8"
  by (simp add: toString36.simps)

text \<open>
  The hypotheses hold on a day whose two tasks were generated a millisecond and a
  random draw away from the new reading.
\<close>

theorem created_tasks_witness:
  "random_text (random36 reading1) \<and> list_all (other_reading reading1) [reading2, reading3]
   \<and> map task_id (tasks (currentData generated_world)) = map generateId [reading2, reading3]
   \<and> distinct (map task_id (tasks (currentData generated_world)))
   \<and> task_id (fst (addTask reading1 evening generated_world))
        \<notin> set (map task_id (tasks (currentData generated_world)))
   \<and> distinct (map task_id (tasks (currentData (snd (addTask reading1 evening generated_world)))))
   \<and> (0::int) \<le> 1 \<and> (1::int) < 3
   \<and> mset (tasks (getDateData (localStorage (addRecurringTask readings evening 3 generated_world))
         (formatDate (addDays (currentDate generated_world) 1))))
       = {#newTask (readings 1) evening, newTask reading2 commute, newTask reading3 lecture#}
   \<and> random_text (random36 (readings 1))
   \<and> list_all (other_reading (readings 1)) [reading2, reading3]
   \<and> task_id (newTask (readings 1) evening)
        \<notin> set (map task_id (tasks (getDateData (localStorage generated_world)
              (formatDate (addDays (currentDate generated_world) 1)))))
   \<and> other_reading (readings 1) (readings 0)
   \<and> task_id (newTask (readings 0) evening) \<noteq> task_id (newTask (readings 1) evening)
   \<and> \<not> ((0::int) \<le> 5 \<and> (5::int) < 3)
   \<and> localStorage (addRecurringTask readings evening 3 generated_world)
         (formatDate (addDays (currentDate generated_world) 5)) = None"
proof -
  have rt: "random_text (random36 reading1)" and rt1: "random_text (random36 (readings 1))"
    by (simp_all add: random_text_def reading1_def readings_def)
  have others: "list_all (other_reading reading1) [reading2, reading3]"
    and others1: "list_all (other_reading (readings 1)) [reading2, reading3]"
    and o: "other_reading (readings 1) (readings 0)"
    and o23: "other_reading reading3 reading2"
    by (simp_all add: other_reading_def random_text_def reading1_def reading2_def reading3_def
        readings_def clock_lengths)
  have ids: "map task_id (tasks (currentData generated_world)) = map generateId [reading2, reading3]"
    by (simp add: generated_world_def generated_day_def newTask_def)
  have "random_text (random36 reading3)"
    by (simp add: random_text_def reading3_def)
  then have "generateId reading2 \<noteq> generateId reading3"
    using o23 by (rule generateId_inject)
  then have d: "distinct (map task_id (tasks (currentData generated_world)))"
    by (simp add: ids)
  have day1: "getDateData (localStorage generated_world)
       (formatDate (addDays (currentDate generated_world) 1)) = generated_day"
    by (simp add: generated_world_def getDateData_def formatDate_def addDays_def)
  have ids1: "map task_id (tasks (getDateData (localStorage generated_world)
       (formatDate (addDays (currentDate generated_world) 1)))) = map generateId [reading2, reading3]"
    by (simp add: day1 generated_day_def newTask_def)
  have day5: "localStorage generated_world
       (formatDate (addDays (currentDate generated_world) 5)) = None"
    by (simp add: generated_world_def formatDate_def addDays_def)
  have j: "(0::int) \<le> 1 \<and> (1::int) < 3" and j5: "\<not> ((0::int) \<le> 5 \<and> (5::int) < 3)"
    by simp_all
  note t1 = created_tasks[where e = reading1 and td = evening and w = generated_world
      and rs = "[reading2, reading3]" and j = 1 and k = 0 and numDays = 3 and es = readings]
  note t2 = created_tasks[where e = reading1 and td = evening and w = generated_world
      and rs = "[reading2, reading3]" and j = 5 and k = 0 and numDays = 3 and es = readings]
  have m: "mset (tasks (getDateData (localStorage (addRecurringTask readings evening 3 generated_world))
         (formatDate (addDays (currentDate generated_world) 1))))
       = {#newTask (readings 1) evening, newTask reading2 commute, newTask reading3 lecture#}"
    using t1 j by (simp add: day1 generated_day_def)
  have f1: "task_id (fst (addTask reading1 evening generated_world))
        \<notin> set (map task_id (tasks (currentData generated_world)))"
    and f2: "distinct (map task_id (tasks (currentData (snd (addTask reading1 evening generated_world)))))"
    using t1 rt others ids d by blast+
  have f3: "task_id (newTask (readings 1) evening)
        \<notin> set (map task_id (tasks (getDateData (localStorage generated_world)
              (formatDate (addDays (currentDate generated_world) 1)))))"
    using t1 rt1 others1 ids1 by blast
  have f4: "task_id (newTask (readings 0) evening) \<noteq> task_id (newTask (readings 1) evening)"
    using t1 rt1 o by blast
  have f5: "localStorage (addRecurringTask readings evening 3 generated_world)
         (formatDate (addDays (currentDate generated_world) 5)) = None"
    using t2 j5 day5 by simp
  show ?thesis
    using rt others ids d f1 f2 j m rt1 others1 f3 o f4 j5 f5 by blast
qed

section \<open>Statistics\<close>

lemma getStats_counts:
  "total (getStats w) = length (tasks (currentData w))
   \<and> completedCount (getStats w) = length (filter completed (tasks (currentData w)))
   \<and> (tasks (currentData w) = [] \<longrightarrow> rate (getStats w) = 0)"
  by (simp add: getStats_def Let_def rate_of_def)

lemma doubles_23_of_40:
  "js_divide 23 40 = \<lparr>mant = 5179139571476070, expo = - 53\<rparr>
   \<and> js_times (js_divide 23 40) 100 = \<lparr>mant = 8092405580431359, expo = - 47\<rparr>"
  by code_simp

lemma rate_23_of_40: "rate_of 40 23 = 57"
  by code_simp

lemma rate_thirds: "rate_of 3 1 = 33 \<and> rate_of 3 2 = 67"
  by code_simp

lemma rate_exact_halves: "rate_of 8 1 = 13 \<and> rate_of 200 1 = 1 \<and> rate_of 40 1 = 3"
  by code_simp

text \<open>
  Claim C3 at 23 completed tasks of 40. The exact percentage is 57.5, which the
  specification rounds up to 58. The double nearest to 23/40 lies below 0.575, its
  product with 100 rounds to the double just below 57.5 (57.49999999999999), and
  \<open>Math.round\<close> gives 57.
\<close>

theorem getStats_23_of_40:
  "getStats forty_tasks_world = \<lparr>total = 40, completedCount = 23, rate = 57\<rparr>
   \<and> spec_rate 40 23 = 58"
proof -
  have "length (tasks (currentData forty_tasks_world)) = 40"
    by (simp add: forty_tasks_world_def)
  moreover have "length (filter completed (tasks (currentData forty_tasks_world))) = 23"
    by (simp add: forty_tasks_world_def lecture_task_def commute_task_def filter_map comp_def)
  moreover have "spec_rate 40 23 = 58"
    by (simp add: spec_rate_def)
  ultimately show ?thesis
    by (simp add: getStats_def Let_def rate_23_of_40)
qed

section \<open>Updating a task\<close>

lemma find_Some_member: "find P xs = Some t \<Longrightarrow> t \<in> set xs"
  by (induction xs) (auto split: if_splits)

lemma mset_update_first:
  "find P xs = Some t \<Longrightarrow> mset (update_first P f xs) = add_mset (f t) (mset xs - {#t#})"
proof (induction xs)
  case Nil
  then show ?case by simp
next
  case (Cons a xs)
  show ?case
  proof (cases "P a")
    case True
    with Cons.prems show ?thesis by simp
  next
    case False
    with Cons.prems have f: "find P xs = Some t" by simp
    then have "t \<in># mset xs" by (simp add: find_Some_member)
    with False Cons.IH[OF f] show ?thesis
      by (simp add: add_mset_commute)
  qed
qed

text \<open>
  Claim C4. When the record holds a task with the given id, \<open>updateTask\<close> replaces
  the first such task by itself with the start time, end time, name and category of
  the input; its \<open>completed\<close> flag and its id stay. Every other task stays: the new
  list is the old one with that one task exchanged, as a multiset, since the list is
  sorted again by start time (in the order of \<open>localeCompare\<close>). The study topics and
  the practice activities are unchanged.
\<close>

theorem updateTask_frame:
  assumes "find (\<lambda>t. task_id t = i) (tasks (currentData w)) = Some t"
  shows "mset (tasks (currentData (updateTask i td w)))
           = add_mset (overwrite td t) (mset (tasks (currentData w)) - {#t#})
         \<and> startTime (overwrite td t) = startTime td
         \<and> endTime (overwrite td t) = endTime td
         \<and> name (overwrite td t) = name td
         \<and> category (overwrite td t) = category td
         \<and> completed (overwrite td t) = completed t
         \<and> task_id (overwrite td t) = task_id t
         \<and> dsTopics (currentData (updateTask i td w)) = dsTopics (currentData w)
         \<and> englishActivities (currentData (updateTask i td w)) = englishActivities (currentData w)
         \<and> tasks_sorted (currentData (updateTask i td w))"
proof -
  have a: "mset (tasks (currentData (updateTask i td w)))
           = add_mset (overwrite td t) (mset (tasks (currentData w)) - {#t#})"
    using assms by (simp add: updateTask_tasks mset_array_sort mset_update_first)
  have b: "dsTopics (currentData (updateTask i td w)) = dsTopics (currentData w)"
    "englishActivities (currentData (updateTask i td w)) = englishActivities (currentData w)"
    by (simp_all add: updateTask_def sortTasks_def save_def split: option.split)
  have c: "tasks_sorted (currentData (updateTask i td w))"
    using assms by (simp add: tasks_sorted_def updateTask_tasks sorted_array_sort)
  show ?thesis
    using a b c by (simp add: overwrite_def)
qed

text \<open>
  On the day of three tasks, a topic and an activity: the lecture moves to the
  evening, the two other tasks, the topic and the activity stay.
\<close>

theorem updateTask_frame_witness:
  "find (\<lambda>t. task_id t = ''a1'') (tasks (currentData busy_world)) = Some lecture_task
   \<and> mset (tasks (currentData (updateTask ''a1'' evening busy_world)))
       = {#commute_task, seminar_task, overwrite evening lecture_task#}
   \<and> completed (overwrite evening lecture_task) = True
   \<and> task_id (overwrite evening lecture_task) = ''a1''
   \<and> startTime (overwrite evening lecture_task) = [D1, D8, Colon, D3, D0]
   \<and> dsTopics (currentData (updateTask ''a1'' evening busy_world)) = [stored_topic (JStr ''45'')]
   \<and> englishActivities (currentData (updateTask ''a1'' evening busy_world))
       = englishActivities busy_day
   \<and> tasks_sorted (currentData (updateTask ''a1'' evening busy_world))"
proof -
  have a: "find (\<lambda>t. task_id t = ''a1'') (tasks (currentData busy_world)) = Some lecture_task"
    by (simp add: busy_world_def busy_day_def lecture_task_def commute_task_def)
  have b: "mset (tasks (currentData busy_world)) - {#lecture_task#} = {#commute_task, seminar_task#}"
    by (simp add: busy_world_def busy_day_def)
  have c: "dsTopics (currentData busy_world) = [stored_topic (JStr ''45'')]
      \<and> englishActivities (currentData busy_world) = englishActivities busy_day"
    by (simp add: busy_world_def busy_day_def)
  have d: "completed (overwrite evening lecture_task) = True
      \<and> task_id (overwrite evening lecture_task) = ''a1''
      \<and> startTime (overwrite evening lecture_task) = [D1, D8, Colon, D3, D0]"
    by (simp add: overwrite_def lecture_task_def evening_def)
  have e: "mset (tasks (currentData (updateTask ''a1'' evening busy_world)))
       = {#commute_task, seminar_task, overwrite evening lecture_task#}"
    using updateTask_frame[OF a, of evening] by (simp add: b add_mset_commute)
  show ?thesis
    using a c d e updateTask_frame[OF a, of evening] by simp
qed

section \<open>Unknown ids\<close>

lemma englishActivities_same:
  "englishActivities d = Some xs \<Longrightarrow> d\<lparr>englishActivities := Some xs\<rparr> = d"
  by (cases d) simp

lemma filter_id_absent: "i \<notin> f ` set xs \<Longrightarrow> filter (\<lambda>t. f t \<noteq> i) xs = xs"
  by (induction xs) auto

lemma find_id_absent: "i \<notin> f ` set xs \<Longrightarrow> find (\<lambda>t. f t = i) xs = None"
  by (induction xs) auto

text \<open>
  Claim C5. For an id that no task of the record has, \<open>updateTask\<close> and
  \<open>toggleTask\<close> return the world as it was, and \<open>deleteTask\<close> leaves the record as it
  was and still saves it. No branch of the three throws: they return a world, not an
  outcome. The deletions of the other two managers behave the same way
  (\<open>deleteActivity\<close> returns before the save when the record has no collection).
\<close>

theorem unknown_id_noop:
  "(i \<notin> task_id ` set (tasks (currentData w)) \<longrightarrow>
      updateTask i td w = w \<and> toggleTask i w = w
      \<and> currentData (deleteTask i w) = currentData w \<and> deleteTask i w = save w)
   \<and> (i \<notin> topic_id ` set (dsTopics (currentData w)) \<longrightarrow>
      currentData (deleteTopic i w) = currentData w \<and> deleteTopic i w = save w)
   \<and> (i \<notin> a_id ` set (getActivities w) \<longrightarrow>
      currentData (deleteActivity i w) = currentData w
      \<and> deleteActivity i w = (if englishActivities (currentData w) = None then w else save w))"
proof (intro conjI impI)
  assume h: "i \<notin> task_id ` set (tasks (currentData w))"
  show "updateTask i td w = w"
    by (simp add: updateTask_def find_id_absent[OF h])
  show "toggleTask i w = w"
    by (simp add: toggleTask_def find_id_absent[OF h])
  show "currentData (deleteTask i w) = currentData w"
    by (simp add: deleteTask_def save_def filter_id_absent[OF h])
  show "deleteTask i w = save w"
    by (simp add: deleteTask_def filter_id_absent[OF h])
next
  assume h: "i \<notin> topic_id ` set (dsTopics (currentData w))"
  show "currentData (deleteTopic i w) = currentData w"
    by (simp add: deleteTopic_def save_def filter_id_absent[OF h])
  show "deleteTopic i w = save w"
    by (simp add: deleteTopic_def filter_id_absent[OF h])
next
  assume h: "i \<notin> a_id ` set (getActivities w)"
  show "currentData (deleteActivity i w) = currentData w"
    using h by (auto simp add: deleteActivity_def getActivities_def save_def filter_id_absent
        englishActivities_same split: option.splits)
  show "deleteActivity i w = (if englishActivities (currentData w) = None then w else save w)"
    using h by (auto simp add: deleteActivity_def getActivities_def filter_id_absent
        englishActivities_same split: option.splits)
qed

theorem unknown_id_noop_witness:
  "''zz'' \<notin> task_id ` set (tasks (currentData one_task_world))
   \<and> updateTask ''zz'' commute one_task_world = one_task_world
   \<and> toggleTask ''zz'' one_task_world = one_task_world
   \<and> deleteTask ''zz'' one_task_world = save one_task_world
   \<and> ''zz'' \<notin> topic_id ` set (dsTopics (currentData one_task_world))
   \<and> deleteTopic ''zz'' one_task_world = save one_task_world
   \<and> ''zz'' \<notin> a_id ` set (getActivities one_task_world)
   \<and> deleteActivity ''zz'' one_task_world = save one_task_world"
proof -
  have a: "''zz'' \<notin> task_id ` set (tasks (currentData one_task_world))"
    by (simp add: one_task_world_def one_task_day_def lecture_task_def)
  have b: "''zz'' \<notin> topic_id ` set (dsTopics (currentData one_task_world))"
    by (simp add: one_task_world_def one_task_day_def)
  have c: "''zz'' \<notin> a_id ` set (getActivities one_task_world)"
    by (simp add: one_task_world_def one_task_day_def getActivities_def)
  have d: "englishActivities (currentData one_task_world) \<noteq> None"
    by (simp add: one_task_world_def one_task_day_def)
  show ?thesis
    using a b c unknown_id_noop[where i = "''zz''" and w = one_task_world and td = commute]
    by (simp add: d)
qed

section \<open>Adding a study topic\<close>

text \<open>
  Against claim C6 as worded: the duration is not parsed. The text \<open>abc\<close> given as
  duration is stored as it is, neither an integer nor unset.
\<close>

theorem duration_stored_as_given:
  "addTopic reading1 graphs empty_world =
     Inr (save (empty_world\<lparr>currentData := getDefaultDateData\<lparr>dsTopics :=
       [\<lparr>topic = JStr ''Graphs'', duration = JStr ''abc'', difficulty = JStr ''Advanced'',
         resource = JStr ''Book'', notes_t = JStr ''BFS'', topic_id = generateId reading1,
         date = DateKey 20424\<rparr>]\<rparr>\<rparr>))"
  by (simp add: addTopic_def graphs_def empty_world_def trim_def is_space_def js_or_def
      getDefaultDateData_def getCurrentDateString_def formatDate_def)

text \<open>
  Claim C6, amended. A topic that trims to the empty string leaves the world
  unchanged. A topic that trims to a non-empty string, with notes that are a string,
  appends exactly one entry at the end of the collection: the trimmed topic, the
  duration as given when it is truthy and \<open>null\<close> otherwise, the difficulty or
  \<open>Intermediate\<close>, the resource or \<open>Other\<close>, the trimmed notes or \<open>null\<close> when they
  trim to nothing, a generated id and the key of the current date. A topic that trims
  to a non-empty string with notes that are not a string throws a TypeError and
  appends nothing.
\<close>

theorem addTopic_effect:
  "(topic td = JStr s \<and> trim s = [] \<longrightarrow> addTopic e td w = Inr w)
   \<and> (topic td = JStr s \<and> trim s \<noteq> [] \<and> notes_t td = JStr n \<longrightarrow>
        addTopic e td w =
          Inr (save (w\<lparr>currentData := (currentData w)\<lparr>dsTopics := dsTopics (currentData w) @
            [\<lparr>topic = JStr (trim s),
              duration = (if truthy (duration td) then duration td else JNull),
              difficulty = (if truthy (difficulty td) then difficulty td else JStr ''Intermediate''),
              resource = (if truthy (resource td) then resource td else JStr ''Other''),
              notes_t = (if trim n = [] then JNull else JStr (trim n)),
              topic_id = generateId e,
              date = formatDate (currentDate w)\<rparr>]\<rparr>\<rparr>)))
   \<and> (topic td = JStr s \<and> trim s \<noteq> [] \<and> is_string (notes_t td) = False \<longrightarrow>
        addTopic e td w = Inl (TypeError, w))"
proof (intro conjI impI)
  assume "topic td = JStr s \<and> trim s = []"
  then show "addTopic e td w = Inr w"
    by (simp add: addTopic_def)
next
  assume "topic td = JStr s \<and> trim s \<noteq> [] \<and> notes_t td = JStr n"
  then show "addTopic e td w =
          Inr (save (w\<lparr>currentData := (currentData w)\<lparr>dsTopics := dsTopics (currentData w) @
            [\<lparr>topic = JStr (trim s),
              duration = (if truthy (duration td) then duration td else JNull),
              difficulty = (if truthy (difficulty td) then difficulty td else JStr ''Intermediate''),
              resource = (if truthy (resource td) then resource td else JStr ''Other''),
              notes_t = (if trim n = [] then JNull else JStr (trim n)),
              topic_id = generateId e,
              date = formatDate (currentDate w)\<rparr>]\<rparr>\<rparr>))"
    by (simp add: addTopic_def js_or_def getCurrentDateString_def)
next
  assume "topic td = JStr s \<and> trim s \<noteq> [] \<and> is_string (notes_t td) = False"
  then show "addTopic e td w = Inl (TypeError, w)"
    by (cases "notes_t td") (simp_all add: addTopic_def is_string_def)
qed

text \<open>
  On the day of three tasks: a topic with no duration and empty notes is appended
  after the stored one, a blank topic changes nothing, and \<open>null\<close> notes throw.
\<close>

theorem addTopic_effect_witness:
  "topic linear_algebra = JStr ''Linear Algebra'' \<and> trim ''Linear Algebra'' \<noteq> []
   \<and> notes_t linear_algebra = JStr ''''
   \<and> addTopic reading1 linear_algebra busy_world =
       Inr (save (busy_world\<lparr>currentData := busy_day\<lparr>dsTopics :=
         [stored_topic (JStr ''45''),
          \<lparr>topic = JStr ''Linear Algebra'', duration = JNull, difficulty = JStr ''Intermediate'',
           resource = JStr ''Other'', notes_t = JNull, topic_id = generateId reading1,
           date = DateKey 20424\<rparr>]\<rparr>\<rparr>))
   \<and> topic (linear_algebra\<lparr>topic := JStr ''   ''\<rparr>) = JStr ''   '' \<and> trim ''   '' = []
   \<and> addTopic reading1 (linear_algebra\<lparr>topic := JStr ''   ''\<rparr>) busy_world = Inr busy_world
   \<and> is_string (notes_t (linear_algebra\<lparr>notes_t := JNull\<rparr>)) = False
   \<and> addTopic reading1 (linear_algebra\<lparr>notes_t := JNull\<rparr>) busy_world
       = Inl (TypeError, busy_world)"
proof -
  have a: "topic linear_algebra = JStr ''Linear Algebra'' \<and> trim ''Linear Algebra'' \<noteq> []
      \<and> notes_t linear_algebra = JStr ''''"
    by (simp add: linear_algebra_def trim_def is_space_def)
  have b: "topic (linear_algebra\<lparr>topic := JStr ''   ''\<rparr>) = JStr ''   '' \<and> trim ''   '' = []"
    by (simp add: trim_def is_space_def)
  have c: "trim '''' = []"
    by (simp add: trim_def)
  have d: "topic (linear_algebra\<lparr>notes_t := JNull\<rparr>) = JStr ''Linear Algebra''
      \<and> is_string (notes_t (linear_algebra\<lparr>notes_t := JNull\<rparr>)) = False"
    by (simp add: linear_algebra_def is_string_def)
  have e: "currentData busy_world = busy_day \<and> dsTopics busy_day = [stored_topic (JStr ''45'')]
      \<and> formatDate (currentDate busy_world) = DateKey 20424"
    by (simp add: busy_world_def busy_day_def formatDate_def)
  have r1: "addTopic reading1 linear_algebra busy_world =
       Inr (save (busy_world\<lparr>currentData := busy_day\<lparr>dsTopics :=
         [stored_topic (JStr ''45''),
          \<lparr>topic = JStr ''Linear Algebra'', duration = JNull, difficulty = JStr ''Intermediate'',
           resource = JStr ''Other'', notes_t = JNull, topic_id = generateId reading1,
           date = DateKey 20424\<rparr>]\<rparr>\<rparr>))"
    using a addTopic_effect[where td = linear_algebra and s = "''Linear Algebra''" and n = "''''"
        and e = reading1 and w = busy_world]
    by (simp add: c e linear_algebra_def trim_def is_space_def)
  have r2: "addTopic reading1 (linear_algebra\<lparr>topic := JStr ''   ''\<rparr>) busy_world = Inr busy_world"
    using b addTopic_effect[where td = "linear_algebra\<lparr>topic := JStr ''   ''\<rparr>" and s = "''   ''"
        and e = reading1 and w = busy_world]
    by blast
  have r3: "addTopic reading1 (linear_algebra\<lparr>notes_t := JNull\<rparr>) busy_world
       = Inl (TypeError, busy_world)"
    using a d addTopic_effect[where td = "linear_algebra\<lparr>notes_t := JNull\<rparr>"
        and s = "''Linear Algebra''" and e = reading1 and w = busy_world]
    by blast
  show ?thesis
    using a b d r1 r2 r3 by blast
qed

section \<open>Adding a practice activity\<close>

text \<open>
  Against claim C7 as worded: \<open>addActivity\<close> does not always append. With a content
  that is \<open>null\<close>, or with notes that are \<open>undefined\<close>, the call of \<open>trim\<close> throws and
  the world stays as it was.
\<close>

theorem absent_content_appends_nothing:
  "addActivity reading1 (podcast\<lparr>a_content := JNull\<rparr>) busy_world = Inl (TypeError, busy_world)
   \<and> addActivity reading1 (podcast\<lparr>a_notes := JUndefined\<rparr>) busy_world
       = Inl (TypeError, busy_world)"
  by (simp add: addActivity_def podcast_def)

text \<open>
  Claim C7, amended. \<open>addActivity\<close> has no guard on empty input: whenever the content
  and the notes are strings, empty or not, it appends one activity at the end and
  saves; when one of them is not a string it throws a TypeError and appends nothing.
  The stored \<open>completed\<close> flag is the boolean of \<open>completed === 'true'\<close>: true for the
  string \<open>true\<close> and false for every other value, the boolean \<open>true\<close> included.
\<close>

theorem addActivity_appends:
  "(a_content ad = JStr c \<and> a_notes ad = JStr n \<longrightarrow>
      addActivity e ad w =
        Inr (save (w\<lparr>currentData := (currentData w)\<lparr>englishActivities := Some (getActivities w @
          [\<lparr>a_type = a_type ad,
            a_duration = (if truthy (a_duration ad) then a_duration ad else JNull),
            a_completed = JBool (a_completed ad = JStr ''true''),
            a_content = (if trim c = [] then JNull else JStr (trim c)),
            a_notes = (if trim n = [] then JNull else JStr (trim n)),
            a_id = generateId e,
            a_date = formatDate (currentDate w)\<rparr>])\<rparr>\<rparr>)))
   \<and> (is_string (a_content ad) = False \<or> is_string (a_notes ad) = False \<longrightarrow>
      addActivity e ad w = Inl (TypeError, w))"
proof (intro conjI impI)
  assume "a_content ad = JStr c \<and> a_notes ad = JStr n"
  then show "addActivity e ad w =
        Inr (save (w\<lparr>currentData := (currentData w)\<lparr>englishActivities := Some (getActivities w @
          [\<lparr>a_type = a_type ad,
            a_duration = (if truthy (a_duration ad) then a_duration ad else JNull),
            a_completed = JBool (a_completed ad = JStr ''true''),
            a_content = (if trim c = [] then JNull else JStr (trim c)),
            a_notes = (if trim n = [] then JNull else JStr (trim n)),
            a_id = generateId e,
            a_date = formatDate (currentDate w)\<rparr>])\<rparr>\<rparr>))"
    by (simp add: addActivity_def js_or_def getCurrentDateString_def getActivities_def Let_def)
next
  assume "is_string (a_content ad) = False \<or> is_string (a_notes ad) = False"
  then show "addActivity e ad w = Inl (TypeError, w)"
    by (cases "a_content ad"; cases "a_notes ad") (simp_all add: addActivity_def is_string_def)
qed

text \<open>
  On the day of three tasks: an activity with empty content and the boolean \<open>true\<close>
  as \<open>completed\<close> is appended with \<open>completed = false\<close>, and a content that is not a
  string throws.
\<close>

theorem addActivity_appends_witness:
  "a_content podcast = JStr '''' \<and> a_notes podcast = JStr '' new words ''
   \<and> addActivity reading1 podcast busy_world =
     Inr (save (busy_world\<lparr>currentData := busy_day\<lparr>englishActivities := Some
       [\<lparr>a_type = JStr ''Reading'', a_duration = JNull, a_completed = JBool True,
          a_content = JNull, a_notes = JNull, a_id = ''d4'', a_date = DateKey 20424\<rparr>,
        \<lparr>a_type = JStr ''Podcast'', a_duration = JStr ''20'', a_completed = JBool False,
         a_content = JNull, a_notes = JStr ''new words'', a_id = generateId reading1,
         a_date = DateKey 20424\<rparr>]\<rparr>\<rparr>))
   \<and> is_string (a_content (podcast\<lparr>a_content := JBool True\<rparr>)) = False
   \<and> addActivity reading1 (podcast\<lparr>a_content := JBool True\<rparr>) busy_world
       = Inl (TypeError, busy_world)"
proof -
  have a: "a_content podcast = JStr '''' \<and> a_notes podcast = JStr '' new words ''"
    by (simp add: podcast_def)
  have c: "trim '''' = [] \<and> trim '' new words '' = ''new words''"
    by (simp add: trim_def is_space_def)
  have d: "is_string (a_content (podcast\<lparr>a_content := JBool True\<rparr>)) = False"
    by (simp add: is_string_def)
  have r1: "addActivity reading1 podcast busy_world =
     Inr (save (busy_world\<lparr>currentData := busy_day\<lparr>englishActivities := Some
       [\<lparr>a_type = JStr ''Reading'', a_duration = JNull, a_completed = JBool True,
          a_content = JNull, a_notes = JNull, a_id = ''d4'', a_date = DateKey 20424\<rparr>,
        \<lparr>a_type = JStr ''Podcast'', a_duration = JStr ''20'', a_completed = JBool False,
         a_content = JNull, a_notes = JStr ''new words'', a_id = generateId reading1,
         a_date = DateKey 20424\<rparr>]\<rparr>\<rparr>))"
    using a addActivity_appends[where ad = podcast and c = "''''" and n = "'' new words ''"
        and e = reading1 and w = busy_world]
    by (simp add: c podcast_def busy_world_def busy_day_def formatDate_def getActivities_def)
  have r2: "addActivity reading1 (podcast\<lparr>a_content := JBool True\<rparr>) busy_world
       = Inl (TypeError, busy_world)"
    using d addActivity_appends[where ad = "podcast\<lparr>a_content := JBool True\<rparr>"
        and e = reading1 and w = busy_world]
    by blast
  show ?thesis
    using a d r1 r2 by blast
qed

section \<open>Summaries\<close>

lemma max_double_ge: "2 ^ 53 \<le> max_double"
  by (simp add: max_double_def)

lemma to_number_small:
  assumes "\<bar>n\<bar> \<le> 2 ^ 53"
  shows "to_number n = Num n"
proof -
  have r: "round53 n = n"
    using assms by (simp add: round53_def)
  have "\<not> max_double < n \<and> \<not> n < - max_double"
    using assms max_double_ge by linarith
  then show ?thesis
    by (simp add: to_number_def r)
qed

lemma to_number_not_NaN: "to_number n \<noteq> NaN"
  by (simp add: to_number_def Let_def)

lemma parseInt_or_0_to_number: "parseInt v = to_number n \<Longrightarrow> parseInt_or_0 v = to_number n"
  using to_number_not_NaN[of n] by (cases "to_number n") (simp_all add: parseInt_or_0_def)

lemma foldl_js_plus:
  "map f xs = map Num ns \<Longrightarrow> \<bar>a\<bar> + sum_list (map abs ns) \<le> 2 ^ 53 \<Longrightarrow>
     foldl (\<lambda>sum t. js_plus sum (f t)) (Num a) xs = Num (a + sum_list ns)"
proof (induction xs arbitrary: a ns)
  case Nil
  then show ?case by simp
next
  case (Cons x xs)
  then obtain n ns' where ns: "ns = n # ns'" "f x = Num n" "map f xs = map Num ns'"
    by (cases ns) auto
  have bound: "\<bar>a + n\<bar> + sum_list (map abs ns') \<le> 2 ^ 53"
    using Cons.prems(2) ns(1) by simp
  have nonneg: "0 \<le> sum_list (map abs ns')"
    by (rule sum_list_nonneg) auto
  have "\<bar>a + n\<bar> \<le> 2 ^ 53"
    using bound nonneg by linarith
  then have "js_plus (Num a) (f x) = Num (a + n)"
    by (simp add: ns(2) to_number_small)
  then show ?case
    using Cons.IH[OF ns(3) bound] by (simp add: ns(1))
qed

lemma decimal_not_space: "is_decimal c \<Longrightarrow> \<not> is_space c"
  by (auto simp: is_decimal_def is_space_def digit_val_def Let_def split: if_splits)

lemma decimal_not_sign: "is_decimal c \<Longrightarrow> \<not> is_sign c"
  by (auto simp: is_decimal_def is_sign_def digit_val_def)

lemma decimal_is_hex: "is_decimal c \<Longrightarrow> is_hex c"
  by (simp add: is_decimal_def is_hex_def)

lemma decimal_not_x: "is_decimal c \<Longrightarrow> c \<noteq> CHR ''x'' \<and> c \<noteq> CHR ''X''"
  by (auto simp: is_decimal_def digit_val_def)

lemma sign_not_space: "is_sign c \<Longrightarrow> \<not> is_space c"
  by (auto simp: is_sign_def is_space_def)

lemma dropWhile_head: "x = [] \<or> \<not> P (hd x) \<Longrightarrow> dropWhile P x = x"
  by (cases x) auto

lemma takeWhile_head: "x = [] \<or> \<not> P (hd x) \<Longrightarrow> takeWhile P x = []"
  by (cases x) auto

lemma dropWhile_spaces:
  "list_all is_space ws \<Longrightarrow> x = [] \<or> \<not> is_space (hd x) \<Longrightarrow> dropWhile is_space (ws @ x) = x"
  by (induction ws) (simp_all add: dropWhile_head)

lemma takeWhile_run:
  "list_all P ds \<Longrightarrow> rest = [] \<or> \<not> P (hd rest) \<Longrightarrow> takeWhile P (ds @ rest) = ds"
  by (induction ds) (simp_all add: takeWhile_head)

lemma is_decimal_fun: "is_decimal = (\<lambda>c. digit_val c < 10)"
  by (simp add: fun_eq_iff is_decimal_def)

lemma is_hex_fun: "is_hex = (\<lambda>c. digit_val c < 16)"
  by (simp add: fun_eq_iff is_hex_def)

text \<open>The text after the white space and the sign decides the radix and the digits.\<close>

lemma parseInt_string_parts:
  assumes ws: "list_all is_space ws" and sg: "sign_text sg"
    and body: "sg = [] \<Longrightarrow> body = [] \<or> (\<not> is_space (hd body) \<and> \<not> is_sign (hd body))"
  shows "parseInt_string (ws @ sg @ body) =
     (let hex = hex_prefix (take 2 body);
          radix = (if hex then 16 else 10);
          ds = takeWhile (\<lambda>c. digit_val c < radix) (if hex then drop 2 body else body)
      in if ds = [] then NaN else to_number (signed sg (digits_value radix ds)))"
proof -
  have nospace: "sg @ body = [] \<or> \<not> is_space (hd (sg @ body))"
    using sg body by (auto simp: sign_text_def is_space_def)
  have s1: "dropWhile is_space (ws @ sg @ body) = sg @ body"
    using dropWhile_spaces[OF ws nospace] .
  show ?thesis
  proof (cases "sg = []")
    case True
    with body have "body = [] \<or> (hd body \<noteq> CHR ''-'' \<and> hd body \<noteq> CHR ''+'')"
      by (auto simp: is_sign_def)
    then show ?thesis
      unfolding parseInt_string_def s1
      by (auto simp: True Let_def hex_prefix_def signed_def)
  next
    case False
    then have "sg = ''-'' \<or> sg = ''+''"
      using sg by (simp add: sign_text_def)
    then show ?thesis
      unfolding parseInt_string_def s1
      by (auto simp: Let_def hex_prefix_def signed_def)
  qed
qed

lemma not_hex_prefix_decimal:
  assumes "ds \<noteq> []" "list_all is_decimal ds"
    and "\<not> (ds = ''0'' \<and> rest \<noteq> [] \<and> (hd rest = CHR ''x'' \<or> hd rest = CHR ''X''))"
  shows "\<not> hex_prefix (take 2 (ds @ rest))"
proof (cases ds)
  case Nil
  with assms(1) show ?thesis by simp
next
  case (Cons d ds')
  show ?thesis
  proof (cases ds')
    case Nil
    with Cons assms(3) show ?thesis
      by (cases rest) (auto simp: hex_prefix_def)
  next
    case (Cons d' ds'')
    with \<open>ds = d # ds'\<close> assms(2) have "is_decimal d'" by simp
    then show ?thesis
      using decimal_not_x[of d'] Cons \<open>ds = d # ds'\<close> by (auto simp: hex_prefix_def)
  qed
qed

lemma parseInt_decimal:
  assumes "list_all is_space ws" "sign_text sg" "ds \<noteq> []" "list_all is_decimal ds"
    and "rest = [] \<or> \<not> is_decimal (hd rest)"
    and "\<not> (ds = ''0'' \<and> rest \<noteq> [] \<and> (hd rest = CHR ''x'' \<or> hd rest = CHR ''X''))"
  shows "parseInt_string (ws @ sg @ ds @ rest) = to_number (signed sg (digits_value 10 ds))"
proof -
  have d: "is_decimal (hd ds)"
    using assms(3,4) by (cases ds) auto
  have b: "sg = [] \<Longrightarrow> ds @ rest = [] \<or> (\<not> is_space (hd (ds @ rest)) \<and> \<not> is_sign (hd (ds @ rest)))"
    using d assms(3) decimal_not_space decimal_not_sign by simp
  have nh: "\<not> hex_prefix (take 2 (ds @ rest))"
    using not_hex_prefix_decimal[OF assms(3,4,6)] .
  have run: "takeWhile (\<lambda>c. digit_val c < 10) (ds @ rest) = ds"
    using takeWhile_run[of is_decimal ds rest] assms(4,5)
    by (simp add: is_decimal_fun)
  show ?thesis
    using parseInt_string_parts[OF assms(1,2) b] nh run assms(3)
    by (simp add: Let_def)
qed

lemma parseInt_hex:
  assumes "list_all is_space ws" "sign_text sg" "hex_prefix px" "list_all is_hex hs"
    and "rest = [] \<or> \<not> is_hex (hd rest)"
  shows "parseInt_or_0 (JStr (ws @ sg @ px @ hs @ rest))
           = to_number (signed sg (digits_value 16 hs))"
proof -
  have b: "sg = [] \<Longrightarrow> px @ hs @ rest = []
      \<or> (\<not> is_space (hd (px @ hs @ rest)) \<and> \<not> is_sign (hd (px @ hs @ rest)))"
    using assms(3) by (auto simp: hex_prefix_def is_space_def is_sign_def)
  have px: "take 2 (px @ hs @ rest) = px \<and> drop 2 (px @ hs @ rest) = hs @ rest"
    using assms(3) by (auto simp: hex_prefix_def)
  have run: "takeWhile (\<lambda>c. digit_val c < 16) (hs @ rest) = hs"
    using takeWhile_run[of is_hex hs rest] assms(4,5)
    by (simp add: is_hex_fun)
  have p: "parseInt_string (ws @ sg @ px @ hs @ rest)
      = (if hs = [] then NaN else to_number (signed sg (digits_value 16 hs)))"
    using parseInt_string_parts[OF assms(1,2) b] px run assms(3)
    by (simp add: Let_def)
  show ?thesis
  proof (cases "hs = []")
    case True
    then show ?thesis
      using p by (simp add: parseInt_or_0_def digits_value_def signed_def to_number_small)
  next
    case False
    then show ?thesis
      using p by (simp add: parseInt_or_0_to_number)
  qed
qed

lemma parseInt_no_digit:
  assumes "list_all is_space ws" "sign_text sg"
    and "rest = [] \<or> (\<not> is_decimal (hd rest)
            \<and> (sg = [] \<longrightarrow> \<not> is_space (hd rest) \<and> \<not> is_sign (hd rest)))"
  shows "parseInt_string (ws @ sg @ rest) = NaN"
proof -
  have b: "sg = [] \<Longrightarrow> rest = [] \<or> (\<not> is_space (hd rest) \<and> \<not> is_sign (hd rest))"
    using assms(3) by auto
  have nh: "\<not> hex_prefix (take 2 rest)"
    using assms(3) by (cases rest) (auto simp: hex_prefix_def is_decimal_def digit_val_def)
  have run: "takeWhile (\<lambda>c. digit_val c < 10) rest = []"
    using assms(3) by (cases rest) (auto simp: is_decimal_def)
  show ?thesis
    using parseInt_string_parts[OF assms(1,2) b] nh run
    by (simp add: Let_def)
qed

lemma parseInt_examples:
  "parseInt_string ''abc'' = NaN \<and> parseInt_string ''12abc'' = Num 12"
proof -
  have "digits_value 10 ''12'' = 12"
    by (simp add: digits_value_def digit_val_def)
  then show ?thesis
    using parseInt_no_digit[of "[]" "[]" "''abc''"]
      parseInt_decimal[of "[]" "[]" "''12''" "''abc''"]
    by (simp add: sign_text_def is_decimal_def is_space_def is_sign_def digit_val_def signed_def
        to_number_small)
qed

text \<open>
  Against claim C8 as worded: a duration that is not a number can still count. The
  text \<open>12abc\<close> contributes the 12 it starts with, not 0, in both summaries.
\<close>

theorem leading_integer_counts:
  "totalMinutes (getSummary (topics_world [JStr ''12abc''])) = Num 12
   \<and> totalMinutes_a (getSummary_a (busy_world\<lparr>currentData := busy_day\<lparr>englishActivities := Some
       [\<lparr>a_type = JStr ''Reading'', a_duration = JStr ''12abc'', a_completed = JBool True,
         a_content = JNull, a_notes = JNull, a_id = ''d4'', a_date = DateKey 20424\<rparr>]\<rparr>\<rparr>))
       = Num 12"
  using parseInt_examples
  by (simp add: getSummary_def getTopics_def topics_world_def stored_topic_def parseInt_or_0_def
      getSummary_a_def getActivities_def to_number_small)

text \<open>The sum is a sum of doubles: \<open>1 + 2 ^ 53\<close> is \<open>2 ^ 53\<close>.\<close>

lemma sum_rounds_beyond_2_53:
  "totalMinutes (getSummary (topics_world [JNum 1, JStr ''9007199254740992'']))
     = Num 9007199254740992"
proof -
  have d: "digits_value 10 ''9007199254740992'' = 9007199254740992"
    by (simp add: digits_value_def digit_val_def)
  have p: "parseInt_string ''9007199254740992'' = Num 9007199254740992"
    using parseInt_decimal[of "[]" "[]" "''9007199254740992''" "[]"]
    by (simp add: d sign_text_def is_decimal_def digit_val_def signed_def to_number_small)
  have r: "to_number 9007199254740993 = Num 9007199254740992"
    by code_simp
  show ?thesis
    by (simp add: getSummary_def getTopics_def topics_world_def stored_topic_def parseInt_or_0_def
        p r to_number_small)
qed

text \<open>
  Claim C8, amended. The counts of both summaries are the lengths of the collection
  and of its completed part. \<open>totalMinutes\<close> adds \<open>parseInt(duration) || 0\<close> over the
  entries in double arithmetic: when the contributions are finite and their
  magnitudes total at most \<open>2 ^ 53\<close>, it is their exact sum. An unset duration
  (\<open>null\<close>, \<open>undefined\<close>) and a boolean contribute 0, and a number, here an integer
  from 0 to \<open>2 ^ 32 - 1\<close>, contributes itself. A string is read after its leading
  white space and one optional sign: a run of decimal digits contributes the integer
  it denotes, with the sign, whatever follows the run (the double nearest to it,
  which is the integer itself up to \<open>2 ^ 53\<close>); after the prefix \<open>0x\<close> the hexadecimal
  digits are read instead; and a text with no digit at that place contributes 0.
  Durations 30, \<open>null\<close> and \<open>abc\<close> total 30.
\<close>

theorem summary_totals:
  "totalSessions (getSummary w) = length (getTopics w)
   \<and> totalActivities (getSummary_a w) = length (getActivities w)
   \<and> completedActivities (getSummary_a w)
       = length (filter (\<lambda>a. truthy (a_completed a)) (getActivities w))
   \<and> (map (\<lambda>t. parseInt_or_0 (duration t)) (getTopics w) = map Num ns
        \<and> sum_list (map abs ns) \<le> 2 ^ 53
      \<longrightarrow> totalMinutes (getSummary w) = Num (sum_list ns))
   \<and> (map (\<lambda>a. parseInt_or_0 (a_duration a)) (getActivities w) = map Num ms
        \<and> sum_list (map abs ms) \<le> 2 ^ 53
      \<longrightarrow> totalMinutes_a (getSummary_a w) = Num (sum_list ms))
   \<and> parseInt_or_0 JUndefined = Num 0 \<and> parseInt_or_0 JNull = Num 0
   \<and> parseInt_or_0 (JBool b) = Num 0 \<and> parseInt_or_0 (JNum n) = Num (uint n)
   \<and> (list_all is_space ws \<and> sign_text sg \<and> ds \<noteq> [] \<and> list_all is_decimal ds
        \<and> (rest = [] \<or> \<not> is_decimal (hd rest))
        \<and> \<not> (ds = ''0'' \<and> rest \<noteq> [] \<and> (hd rest = CHR ''x'' \<or> hd rest = CHR ''X''))
      \<longrightarrow> parseInt_or_0 (JStr (ws @ sg @ ds @ rest))
            = to_number (signed sg (digits_value 10 ds)))
   \<and> (list_all is_space ws \<and> sign_text sg \<and> hex_prefix px \<and> list_all is_hex hs
        \<and> (rest = [] \<or> \<not> is_hex (hd rest))
      \<longrightarrow> parseInt_or_0 (JStr (ws @ sg @ px @ hs @ rest))
            = to_number (signed sg (digits_value 16 hs)))
   \<and> (list_all is_space ws \<and> sign_text sg
        \<and> (rest = [] \<or> (\<not> is_decimal (hd rest)
              \<and> (sg = [] \<longrightarrow> \<not> is_space (hd rest) \<and> \<not> is_sign (hd rest))))
      \<longrightarrow> parseInt_or_0 (JStr (ws @ sg @ rest)) = Num 0)
   \<and> (int (digits_value 10 ds) \<le> 2 ^ 53
      \<longrightarrow> to_number (signed sg (digits_value 10 ds)) = Num (signed sg (digits_value 10 ds)))
   \<and> totalMinutes (getSummary (topics_world [JNum 30, JNull, JStr ''abc''])) = Num 30"
proof (intro conjI impI)
  show "totalSessions (getSummary w) = length (getTopics w)"
    by (simp add: getSummary_def Let_def)
  show "totalActivities (getSummary_a w) = length (getActivities w)"
    by (simp add: getSummary_a_def Let_def)
  show "completedActivities (getSummary_a w)
       = length (filter (\<lambda>a. truthy (a_completed a)) (getActivities w))"
    by (simp add: getSummary_a_def Let_def)
  show "parseInt_or_0 JUndefined = Num 0" and "parseInt_or_0 JNull = Num 0"
    and "parseInt_or_0 (JBool b) = Num 0" and "parseInt_or_0 (JNum n) = Num (uint n)"
    by (simp_all add: parseInt_or_0_def)
  show "totalMinutes (getSummary (topics_world [JNum 30, JNull, JStr ''abc''])) = Num 30"
    using parseInt_examples
    by (simp add: getSummary_def getTopics_def topics_world_def stored_topic_def parseInt_or_0_def
        to_number_small)
next
  assume h: "map (\<lambda>t. parseInt_or_0 (duration t)) (getTopics w) = map Num ns
        \<and> sum_list (map abs ns) \<le> 2 ^ 53"
  then show "totalMinutes (getSummary w) = Num (sum_list ns)"
    using foldl_js_plus[of "\<lambda>t. parseInt_or_0 (duration t)" "getTopics w" ns 0]
    by (simp add: getSummary_def Let_def)
next
  assume h: "map (\<lambda>a. parseInt_or_0 (a_duration a)) (getActivities w) = map Num ms
        \<and> sum_list (map abs ms) \<le> 2 ^ 53"
  then show "totalMinutes_a (getSummary_a w) = Num (sum_list ms)"
    using foldl_js_plus[of "\<lambda>a. parseInt_or_0 (a_duration a)" "getActivities w" ms 0]
    by (simp add: getSummary_a_def Let_def)
next
  assume h: "list_all is_space ws \<and> sign_text sg \<and> ds \<noteq> [] \<and> list_all is_decimal ds
        \<and> (rest = [] \<or> \<not> is_decimal (hd rest))
        \<and> \<not> (ds = ''0'' \<and> rest \<noteq> [] \<and> (hd rest = CHR ''x'' \<or> hd rest = CHR ''X''))"
  then have "parseInt_string (ws @ sg @ ds @ rest) = to_number (signed sg (digits_value 10 ds))"
    using parseInt_decimal[of ws sg ds rest] by blast
  then show "parseInt_or_0 (JStr (ws @ sg @ ds @ rest))
            = to_number (signed sg (digits_value 10 ds))"
    by (simp add: parseInt_or_0_to_number)
next
  assume h: "list_all is_space ws \<and> sign_text sg \<and> hex_prefix px \<and> list_all is_hex hs
        \<and> (rest = [] \<or> \<not> is_hex (hd rest))"
  then show "parseInt_or_0 (JStr (ws @ sg @ px @ hs @ rest))
            = to_number (signed sg (digits_value 16 hs))"
    using parseInt_hex[of ws sg px hs rest] by blast
next
  assume h: "list_all is_space ws \<and> sign_text sg
        \<and> (rest = [] \<or> (\<not> is_decimal (hd rest)
              \<and> (sg = [] \<longrightarrow> \<not> is_space (hd rest) \<and> \<not> is_sign (hd rest))))"
  then have "parseInt_string (ws @ sg @ rest) = NaN"
    using parseInt_no_digit[of ws sg rest] by blast
  then show "parseInt_or_0 (JStr (ws @ sg @ rest)) = Num 0"
    by (simp add: parseInt_or_0_def)
next
  assume "int (digits_value 10 ds) \<le> 2 ^ 53"
  then show "to_number (signed sg (digits_value 10 ds)) = Num (signed sg (digits_value 10 ds))"
    by (simp add: to_number_small signed_def)
qed

text \<open>
  On the day of three tasks the topic of 45 minutes and the activity without a
  duration total 45 and 0; the text \<open>-12.5\<close> after a space contributes -12, the text
  \<open>0x1Fg\<close> contributes 31 and the text \<open>abc\<close> contributes 0.
\<close>

theorem summary_totals_witness:
  "map (\<lambda>t. parseInt_or_0 (duration t)) (getTopics busy_world) = map Num [45]
   \<and> sum_list (map abs [45::int]) \<le> 2 ^ 53
   \<and> totalMinutes (getSummary busy_world) = Num 45
   \<and> map (\<lambda>a. parseInt_or_0 (a_duration a)) (getActivities busy_world) = map Num [0]
   \<and> totalMinutes_a (getSummary_a busy_world) = Num 0
   \<and> list_all is_space '' '' \<and> sign_text ''-'' \<and> list_all is_decimal ''12''
   \<and> is_decimal (hd ''.5'') = False
   \<and> parseInt_or_0 (JStr '' -12.5'') = Num (- 12)
   \<and> hex_prefix ''0x'' \<and> list_all is_hex ''1F'' \<and> is_hex (hd ''g'') = False
   \<and> parseInt_or_0 (JStr ''0x1Fg'') = Num 31
   \<and> is_space (hd ''abc'') = False \<and> is_sign (hd ''abc'') = False
   \<and> is_decimal (hd ''abc'') = False
   \<and> parseInt_or_0 (JStr ''abc'') = Num 0"
proof -
  have d45: "digits_value 10 ''45'' = 45" and d12: "digits_value 10 ''12'' = 12"
    and d1f: "digits_value 16 ''1F'' = 31"
    by (simp_all add: digits_value_def digit_val_def)
  have chars: "list_all is_space [] \<and> list_all is_space '' '' \<and> sign_text ''-'' \<and> sign_text []
      \<and> list_all is_decimal ''12'' \<and> list_all is_decimal ''45''
      \<and> is_decimal (hd ''.5'') = False
      \<and> hex_prefix ''0x'' \<and> list_all is_hex ''1F'' \<and> is_hex (hd ''g'') = False
      \<and> is_space (hd ''abc'') = False \<and> is_sign (hd ''abc'') = False
      \<and> is_decimal (hd ''abc'') = False"
    by (simp add: is_space_def sign_text_def is_decimal_def digit_val_def hex_prefix_def
        is_hex_def is_sign_def)
  have p45: "parseInt_or_0 (JStr ''45'') = Num 45"
    using chars d45
      summary_totals[where ws = "[]" and sg = "[]" and ds = "''45''" and rest = "[]"]
    by (simp add: signed_def)
  have t: "map (\<lambda>t. parseInt_or_0 (duration t)) (getTopics busy_world) = map Num [45]"
    by (simp add: p45 getTopics_def busy_world_def busy_day_def stored_topic_def)
  have a: "map (\<lambda>a. parseInt_or_0 (a_duration a)) (getActivities busy_world) = map Num [0]"
    by (simp add: getActivities_def busy_world_def busy_day_def parseInt_or_0_def)
  have b: "sum_list (map abs [45::int]) \<le> 2 ^ 53 \<and> sum_list (map abs [0::int]) \<le> 2 ^ 53"
    by simp
  have r1: "totalMinutes (getSummary busy_world) = Num 45
      \<and> totalMinutes_a (getSummary_a busy_world) = Num 0"
    using t a b summary_totals[where w = busy_world and ns = "[45]" and ms = "[0]"]
    by simp
  have r2: "parseInt_or_0 (JStr '' -12.5'') = Num (- 12)"
    using chars d12
      summary_totals[where ws = "'' ''" and sg = "''-''" and ds = "''12''" and rest = "''.5''"]
    by (simp add: signed_def)
  have r3: "parseInt_or_0 (JStr ''0x1Fg'') = Num 31"
    using chars d1f
      summary_totals[where ws = "[]" and sg = "[]" and px = "''0x''" and hs = "''1F''"
        and rest = "''g''"]
    by (simp add: signed_def to_number_small)
  have r4: "parseInt_or_0 (JStr ''abc'') = Num 0"
    using chars summary_totals[where ws = "[]" and sg = "[]" and rest = "''abc''"]
    by simp
  show ?thesis
    using t a b chars r1 r2 r3 r4 by blast
qed

section \<open>The weekly overview\<close>

lemma weeklyLoop_cards:
  "weeklyLoop st start i html = html @ map (\<lambda>j. week_card st (addDays start j)) [i..6]"
proof (induction st start i html rule: weeklyLoop.induct)
  case (1 st start i html)
  show ?case
  proof (cases "i < 7")
    case False
    then show ?thesis
      by (subst weeklyLoop.simps) simp
  next
    case True
    have up: "[i..6] = i # [i + 1..6]"
      using True by (simp add: upto_rec1)
    have "weeklyLoop st start i html
        = weeklyLoop st start (i + 1) (html @ [week_card st (addDays start i)])"
      using True
      by (subst weeklyLoop.simps) (simp add: Let_def week_card_def rate_of_def)
    also have "\<dots> = (html @ [week_card st (addDays start i)])
        @ map (\<lambda>j. week_card st (addDays start j)) [i + 1..6]"
      using "1.IH"[OF True refl refl refl refl refl refl]
      by (simp add: week_card_def rate_of_def)
    finally show ?thesis
      by (simp add: up)
  qed
qed

lemma week_days: "[0..6] = [0, 1, 2, 3, 4, 5, 6::int]"
  by (simp add: upto_rec1)

text \<open>
  The week starts on the Monday on or before the anchor, six days back from a Sunday,
  and the overview holds the cards of the seven days from that Monday, each with the
  rate computed from the stored record of its day; rendering stores nothing.
\<close>

lemma getStartOfWeek_monday:
  "getDay (getStartOfWeek d) = 1 \<and> getStartOfWeek d \<le> d \<and> d - 6 \<le> getStartOfWeek d
   \<and> (getDay d = 0 \<longrightarrow> getStartOfWeek d = d - 6)
   \<and> (getDay d \<noteq> 0 \<longrightarrow> getStartOfWeek d = d - (getDay d - 1))"
  unfolding getStartOfWeek_def getDay_def addDays_def Let_def by presburger

lemma renderWeeklyOverview_cards:
  "weeklyStats (renderWeeklyOverview w)
     = map (\<lambda>j. week_card (localStorage w) (addDays (getStartOfWeek (currentDate w)) j))
         [0, 1, 2, 3, 4, 5, 6]
   \<and> localStorage (renderWeeklyOverview w) = localStorage w
   \<and> currentData (renderWeeklyOverview w) = currentData w
   \<and> currentDate (renderWeeklyOverview w) = currentDate w"
  by (simp add: renderWeeklyOverview_def weeklyLoop_cards week_days)

lemma week_card_empty: "st (formatDate d) = None \<Longrightarrow>
    week_card st d = \<lparr>card_day = getDay d, card_date = d, card_rate = 0\<rparr>"
  by (simp add: week_card_def getDateData_def getDefaultDateData_def rate_of_def)

text \<open>
  Claim C9 in the week of Tuesday 2 December 2025, whose Wednesday is stored with 23
  of its 40 tasks completed. The week starts on Monday 1 December and the overview
  holds the seven cards from that Monday to Sunday 7 December, six of them with rate
  0 for their empty days, and the storage is unchanged. The Wednesday's card shows
  57: the rate is computed as in \<open>getStats\<close>, in double arithmetic, where the
  specification's formula gives 58 for the exact percentage 57.5.
\<close>

theorem weekly_overview_23_of_40:
  "getStartOfWeek (currentDate week_world) = 20423
   \<and> weeklyStats (renderWeeklyOverview week_world)
       = [\<lparr>card_day = 1, card_date = 20423, card_rate = 0\<rparr>,
          \<lparr>card_day = 2, card_date = 20424, card_rate = 0\<rparr>,
          \<lparr>card_day = 3, card_date = 20425, card_rate = 57\<rparr>,
          \<lparr>card_day = 4, card_date = 20426, card_rate = 0\<rparr>,
          \<lparr>card_day = 5, card_date = 20427, card_rate = 0\<rparr>,
          \<lparr>card_day = 6, card_date = 20428, card_rate = 0\<rparr>,
          \<lparr>card_day = 0, card_date = 20429, card_rate = 0\<rparr>]
   \<and> length (tasks (getDateData (localStorage week_world) (formatDate 20425))) = 40
   \<and> length (filter completed (tasks (getDateData (localStorage week_world) (formatDate 20425))))
       = 23
   \<and> spec_rate 40 23 = 58
   \<and> localStorage (renderWeeklyOverview week_world) = localStorage week_world"
proof -
  have s: "getStartOfWeek (currentDate week_world) = 20423"
    by (simp add: week_world_def getStartOfWeek_def getDay_def addDays_def Let_def)
  have st: "localStorage week_world = [DateKey 20425 \<mapsto> currentData forty_tasks_world]"
    by (simp add: week_world_def)
  have n: "length (tasks (currentData forty_tasks_world)) = 40"
    by (simp add: forty_tasks_world_def)
  have c: "length (filter completed (tasks (currentData forty_tasks_world))) = 23"
    by (simp add: forty_tasks_world_def lecture_task_def commute_task_def filter_map comp_def)
  have wed: "week_card (localStorage week_world) 20425
      = \<lparr>card_day = 3, card_date = 20425, card_rate = 57\<rparr>"
    by (simp add: week_card_def st getDateData_def formatDate_def n c rate_23_of_40 getDay_def)
  have other: "\<And>d. d \<noteq> 20425 \<Longrightarrow> week_card (localStorage week_world) d
      = \<lparr>card_day = getDay d, card_date = d, card_rate = 0\<rparr>"
    by (rule week_card_empty) (simp add: st formatDate_def)
  have cards: "weeklyStats (renderWeeklyOverview week_world)
       = [\<lparr>card_day = 1, card_date = 20423, card_rate = 0\<rparr>,
          \<lparr>card_day = 2, card_date = 20424, card_rate = 0\<rparr>,
          \<lparr>card_day = 3, card_date = 20425, card_rate = 57\<rparr>,
          \<lparr>card_day = 4, card_date = 20426, card_rate = 0\<rparr>,
          \<lparr>card_day = 5, card_date = 20427, card_rate = 0\<rparr>,
          \<lparr>card_day = 6, card_date = 20428, card_rate = 0\<rparr>,
          \<lparr>card_day = 0, card_date = 20429, card_rate = 0\<rparr>]"
    by (simp add: renderWeeklyOverview_cards s addDays_def wed other getDay_def)
  have "spec_rate 40 23 = 58"
    by (simp add: spec_rate_def)
  then show ?thesis
    using s cards n c
    by (simp add: st getDateData_def formatDate_def renderWeeklyOverview_def)
qed

section \<open>Type errors of the two add operations\<close>

text \<open>
  Against claim C10 as worded: \<open>addTopic\<close> reads the notes only after the guard on
  the topic. With an empty topic, notes that are \<open>null\<close> throw nothing; and notes that
  are a string do not make the call return when the topic itself is \<open>null\<close>.
\<close>

theorem empty_topic_skips_notes:
  "addTopic reading1
     \<lparr>topic = JStr '''', duration = JUndefined, difficulty = JUndefined,
      resource = JUndefined, notes_t = JNull\<rparr> empty_world = Inr empty_world
   \<and> addTopic reading1
     \<lparr>topic = JNull, duration = JUndefined, difficulty = JUndefined,
      resource = JUndefined, notes_t = JStr ''''\<rparr> empty_world = Inl (TypeError, empty_world)"
  by (simp add: addTopic_def trim_def)

text \<open>
  Claim C10, amended. \<open>addTopic\<close> throws a TypeError exactly when the topic is not
  a string, or the topic trims to a non-empty string and the notes are not a string;
  \<open>addActivity\<close> throws one exactly when the content or the notes are not a string.
  Either throws before anything is changed: the world at the throw is the world of
  the call. When topic and notes (content and notes) are strings the operation
  returns.
\<close>

theorem add_type_errors:
  "(addTopic e td w = Inl (TypeError, w))
     = (\<not> is_string (topic td) \<or> (trims_nonempty (topic td) \<and> \<not> is_string (notes_t td)))
   \<and> (isl (addTopic e td w) \<longrightarrow> addTopic e td w = Inl (TypeError, w))
   \<and> (is_string (topic td) \<and> is_string (notes_t td) \<longrightarrow> \<not> isl (addTopic e td w))
   \<and> (addActivity e ad w = Inl (TypeError, w))
     = (\<not> is_string (a_content ad) \<or> \<not> is_string (a_notes ad))
   \<and> (isl (addActivity e ad w) \<longrightarrow> addActivity e ad w = Inl (TypeError, w))
   \<and> (is_string (a_content ad) \<and> is_string (a_notes ad) \<longrightarrow> \<not> isl (addActivity e ad w))"
proof -
  have t: "addTopic e td w =
      (if \<not> is_string (topic td) \<or> (trims_nonempty (topic td) \<and> \<not> is_string (notes_t td))
       then Inl (TypeError, w) else Inr (projr (addTopic e td w)))"
    by (cases "topic td"; cases "notes_t td")
       (simp_all add: addTopic_def is_string_def trims_nonempty_def Let_def)
  have a: "addActivity e ad w =
      (if \<not> is_string (a_content ad) \<or> \<not> is_string (a_notes ad)
       then Inl (TypeError, w) else Inr (projr (addActivity e ad w)))"
    by (cases "a_content ad"; cases "a_notes ad")
       (simp_all add: addActivity_def is_string_def Let_def)
  have t1: "(addTopic e td w = Inl (TypeError, w))
     = (\<not> is_string (topic td) \<or> (trims_nonempty (topic td) \<and> \<not> is_string (notes_t td)))"
    by (subst t) simp
  have t2: "isl (addTopic e td w) \<longrightarrow> addTopic e td w = Inl (TypeError, w)"
    by (subst t, subst (2) t) simp
  have t3: "is_string (topic td) \<and> is_string (notes_t td) \<longrightarrow> \<not> isl (addTopic e td w)"
    by (subst t) simp
  have a1: "(addActivity e ad w = Inl (TypeError, w))
     = (\<not> is_string (a_content ad) \<or> \<not> is_string (a_notes ad))"
    by (subst a) simp
  have a2: "isl (addActivity e ad w) \<longrightarrow> addActivity e ad w = Inl (TypeError, w)"
    by (subst a, subst (2) a) simp
  have a3: "is_string (a_content ad) \<and> is_string (a_notes ad) \<longrightarrow> \<not> isl (addActivity e ad w)"
    by (subst a) simp
  show ?thesis
    using t1 t2 t3 a1 a2 a3 by blast
qed

theorem add_type_errors_witness:
  "\<not> is_string (a_notes (podcast\<lparr>a_notes := JNull\<rparr>))
   \<and> addActivity reading1 (podcast\<lparr>a_notes := JNull\<rparr>) empty_world = Inl (TypeError, empty_world)
   \<and> trims_nonempty (topic (linear_algebra\<lparr>notes_t := JUndefined\<rparr>))
   \<and> \<not> is_string (notes_t (linear_algebra\<lparr>notes_t := JUndefined\<rparr>))
   \<and> addTopic reading1 (linear_algebra\<lparr>notes_t := JUndefined\<rparr>) empty_world
       = Inl (TypeError, empty_world)
   \<and> is_string (topic linear_algebra) \<and> is_string (notes_t linear_algebra)
   \<and> \<not> isl (addTopic reading1 linear_algebra empty_world)
   \<and> is_string (a_content podcast) \<and> is_string (a_notes podcast)
   \<and> \<not> isl (addActivity reading1 podcast empty_world)"
proof -
  have a: "\<not> is_string (a_notes (podcast\<lparr>a_notes := JNull\<rparr>))"
    by (simp add: is_string_def)
  have b: "trims_nonempty (topic (linear_algebra\<lparr>notes_t := JUndefined\<rparr>))
      \<and> \<not> is_string (notes_t (linear_algebra\<lparr>notes_t := JUndefined\<rparr>))"
    by (simp add: trims_nonempty_def is_string_def linear_algebra_def trim_def is_space_def)
  have c: "is_string (topic linear_algebra) \<and> is_string (notes_t linear_algebra)
      \<and> is_string (a_content podcast) \<and> is_string (a_notes podcast)"
    by (simp add: is_string_def linear_algebra_def podcast_def)
  show ?thesis
    using a b c
      add_type_errors[where td = "linear_algebra\<lparr>notes_t := JUndefined\<rparr>"
        and ad = "podcast\<lparr>a_notes := JNull\<rparr>" and e = reading1 and w = empty_world]
      add_type_errors[where td = linear_algebra and ad = podcast and e = reading1
        and w = empty_world]
    by blast
qed


end
